theory Spec2Isabelle
  imports Main
begin

section \<open>The noosh shell: platform, process state and results\<close>

text \<open>
  The shell of \<^verbatim>\<open>src/main.c\<close> reads a line, splits it into tokens and runs a builtin
  or an external program. \<^verbatim>\<open>src/noosh.c\<close> is the same text but for \<^verbatim>\<open>noosh_pwd\<close>, which
  goes through a helper \<^verbatim>\<open>get_cwd\<close>, and for the prompt printed by \<^verbatim>\<open>noosh_loop\<close>; the
  functions modelled here are those of \<^verbatim>\<open>src/main.c\<close>, with the second \<^verbatim>\<open>noosh_pwd\<close>
  beside the first.

  The process state the shell can observe or change is the record \<open>world\<close>: the bytes
  still to be read from standard input, what was written to the two output streams, the
  working directory, and the argument vectors of the children it forked. Everything the
  operating system decides (whether an allocation is granted, whether \<^verbatim>\<open>chdir\<close>,
  \<^verbatim>\<open>getcwd\<close>, \<^verbatim>\<open>fork\<close>, \<^verbatim>\<open>execvp\<close> succeed, what a child does and what
  \<^verbatim>\<open>waitpid\<close> reports about it) is a field of the record \<open>os\<close>, a parameter of every
  function.

  A C function that may call \<^verbatim>\<open>exit\<close> yields an \<open>outcome\<close>: \<open>Returns v w\<close> when it
  returns \<open>v\<close> in world \<open>w\<close>, \<open>Exits c w\<close> when the process ends with exit code \<open>c\<close>.
  A function that may also block for ever yields an \<open>outcome option\<close>, \<open>None\<close> meaning
  that it never returns.

  The C \<^verbatim>\<open>int\<close> counters \<^verbatim>\<open>bufsize\<close> and \<^verbatim>\<open>position\<close> are natural numbers here:
  they count the characters of one line and at most one token for every two characters.
  Output is the sequence of writes in program order; stdio buffering is not modelled.
\<close>

definition EXIT_SUCCESS :: int where
  "EXIT_SUCCESS = 0"

definition EXIT_FAILURE :: int where
  "EXIT_FAILURE = 1"

definition PATH_MAX :: nat where
  "PATH_MAX = 4096"

definition ENOMEM :: nat where
  "ENOMEM = 12"

definition ERANGE :: nat where
  "ERANGE = 34"

definition NOOSH_RL_BUFSIZE :: nat where
  "NOOSH_RL_BUFSIZE = 1024"

definition NOOSH_TOK_BUFSIZE :: nat where
  "NOOSH_TOK_BUFSIZE = 64"

text \<open>\<^verbatim>\<open>" \t\r\n\a"\<close>: space, tab, carriage return, newline, bell.\<close>

definition NOOSH_TOK_DELIM :: string where
  "NOOSH_TOK_DELIM = [CHR '' '', CHR 0x09, CHR 0x0D, CHR 0x0A, CHR 0x07]"

record world =
  stdin :: string
  stdout :: string
  stderr :: string
  cwd :: string
  children :: "string list list"

datatype wstatus = WExited int | WSignaled nat | WStopped nat

record os =
  sizeof_ptr :: nat
  malloc_ok :: "nat \<Rightarrow> bool"
  strerror :: "nat \<Rightarrow> string"
  chdir_sys :: "string \<Rightarrow> string \<Rightarrow> nat + string"
  getcwd_sys :: "string \<Rightarrow> nat option"
  fork_sys :: "nat option"
  execvp_sys :: "string list \<Rightarrow> nat option"
  program_io :: "string list \<Rightarrow> string \<Rightarrow> string \<times> string \<times> string"
  waitpid_sys :: "string list \<Rightarrow> nat \<Rightarrow> wstatus option"

datatype 'a outcome = Returns 'a world | Exits int world

text \<open>Writes to the two streams; \<^verbatim>\<open>perror(s)\<close> prints \<open>s\<close>, a colon and the message of
  \<^verbatim>\<open>errno\<close>.\<close>

definition printf :: "string \<Rightarrow> world \<Rightarrow> world" where
  "printf s w = w\<lparr>stdout := stdout w @ s\<rparr>"

definition fprintf_stderr :: "string \<Rightarrow> world \<Rightarrow> world" where
  "fprintf_stderr s w = w\<lparr>stderr := stderr w @ s\<rparr>"

definition perror :: "os \<Rightarrow> string \<Rightarrow> nat \<Rightarrow> world \<Rightarrow> world" where
  "perror sys s errno w = fprintf_stderr (s @ '': '' @ strerror sys errno @ [CHR 0x0A]) w"

section \<open>The tokenizer\<close>

text \<open>
  A \<^verbatim>\<open>char *\<close> is read as a C string: the characters before the first NUL.
  \<^verbatim>\<open>strtok\<close> skips the delimiters at the front; if nothing is left it returns NULL
  (\<open>None\<close>), otherwise the token is the longest delimiter-free stretch, and the saved
  pointer is set behind the delimiter that ended it (which \<^verbatim>\<open>strtok\<close> overwrites with
  NUL), or to the end of the string. The first component is the token returned, the
  second the string the next call \<^verbatim>\<open>strtok(NULL, delim)\<close> scans.
\<close>

definition c_str :: "string \<Rightarrow> string" where
  "c_str s = takeWhile (\<lambda>c. c \<noteq> CHR 0x00) s"

definition strtok :: "string \<Rightarrow> string \<Rightarrow> (string \<times> string) option" where
  "strtok s delim =
     (let s1 = dropWhile (\<lambda>c. c \<in> set delim) (c_str s) in
      if s1 = [] then None
      else Some (takeWhile (\<lambda>c. c \<notin> set delim) s1,
                 drop 1 (dropWhile (\<lambda>c. c \<notin> set delim) s1)))"

text \<open>
  A slot of the \<^verbatim>\<open>char **tokens\<close> array: not yet written (as \<^verbatim>\<open>malloc\<close> and
  \<^verbatim>\<open>realloc\<close> leave it), the NULL pointer, or a pointer to a token.
\<close>

datatype slot = Uninit | Null | Tok string

definition malloc_slots :: "nat \<Rightarrow> slot list" where
  "malloc_slots n = replicate n Uninit"

definition realloc_slots :: "slot list \<Rightarrow> nat \<Rightarrow> slot list" where
  "realloc_slots tokens n = take n tokens @ replicate (n - length tokens) Uninit"

text \<open>The argument vector a \<^verbatim>\<open>char **\<close> denotes: the tokens in front of the first slot
  that is not a token.\<close>

fun argv :: "slot list \<Rightarrow> string list" where
  "argv (Tok t # slots) = t # argv slots"
| "argv _ = []"

lemma strtok_shorter:
  assumes "strtok s delim = Some (token, save)"
  shows "length save < length s"
proof -
  define s1 where "s1 = dropWhile (\<lambda>c. c \<in> set delim) (c_str s)"
  from assms have ne: "s1 \<noteq> []"
    and sv: "save = drop 1 (dropWhile (\<lambda>c. c \<notin> set delim) s1)"
    by (auto simp: strtok_def s1_def Let_def split: if_splits)
  have "length (dropWhile (\<lambda>c. c \<notin> set delim) s1) \<le> length s1"
    by (rule length_dropWhile_le)
  moreover have "0 < length s1"
    using ne by simp
  moreover have "length save = length (dropWhile (\<lambda>c. c \<notin> set delim) s1) - 1"
    unfolding sv by simp
  ultimately have "length save < length s1"
    by linarith
  also have "length s1 \<le> length (c_str s)"
    unfolding s1_def by (rule length_dropWhile_le)
  also have "\<dots> \<le> length s"
    unfolding c_str_def by (rule length_takeWhile_le)
  finally show ?thesis .
qed

text \<open>
  The loop of \<^verbatim>\<open>noosh_split_line\<close>: \<open>token\<close> is the result of the last \<^verbatim>\<open>strtok\<close>
  call, paired with the string the next call scans.
\<close>

function split_loop ::
  "os \<Rightarrow> (string \<times> string) option \<Rightarrow> slot list \<Rightarrow> nat \<Rightarrow> nat \<Rightarrow> world \<Rightarrow> slot list outcome"
where
  "split_loop sys None tokens bufsize position w = Returns (tokens[position := Null]) w"
| "split_loop sys (Some (token, save)) tokens bufsize position w =
     (let tokens1 = tokens[position := Tok token];
          position1 = position + 1
      in if position1 \<ge> bufsize then
           (let bufsize1 = bufsize + NOOSH_TOK_BUFSIZE in
            if malloc_ok sys (bufsize1 * sizeof_ptr sys) then
              split_loop sys (strtok save NOOSH_TOK_DELIM)
                (realloc_slots tokens1 bufsize1) bufsize1 position1 w
            else Exits EXIT_FAILURE (fprintf_stderr ''noosh: allocation error\<newline>'' w))
         else split_loop sys (strtok save NOOSH_TOK_DELIM) tokens1 bufsize position1 w)"
  by pat_completeness auto
termination
proof (relation "measure (\<lambda>(sys, token, tokens, bufsize, position, w).
                   case token of None \<Rightarrow> 0 | Some (t, save) \<Rightarrow> Suc (length save))")
qed (auto split: option.splits dest: strtok_shorter)

definition noosh_split_line :: "os \<Rightarrow> string \<Rightarrow> world \<Rightarrow> slot list outcome" where
  "noosh_split_line sys line w =
     (let bufsize = NOOSH_TOK_BUFSIZE; position = 0 in
      if \<not> malloc_ok sys (bufsize * sizeof_ptr sys) then
        Exits EXIT_FAILURE (fprintf_stderr ''noosh: allocation error\<newline>'' w)
      else split_loop sys (strtok line NOOSH_TOK_DELIM) (malloc_slots bufsize) bufsize position w)"

section \<open>The line reader\<close>

text \<open>
  \<^verbatim>\<open>getchar\<close> takes the next byte of standard input, or yields \<^verbatim>\<open>EOF\<close> when none is
  left. \<open>buffer\<close> holds the characters stored so far, so \<^verbatim>\<open>position\<close> is its length;
  the terminating NUL written at \<^verbatim>\<open>buffer[position]\<close> is what ends the C string the
  caller gets.
\<close>

fun read_loop :: "os \<Rightarrow> string \<Rightarrow> string \<Rightarrow> nat \<Rightarrow> world \<Rightarrow> string outcome" where
  "read_loop sys [] buffer bufsize w = Returns buffer (w\<lparr>stdin := []\<rparr>)"
| "read_loop sys (c # input) buffer bufsize w =
     (if c = CHR 0x0A then Returns buffer (w\<lparr>stdin := input\<rparr>)
      else
        (let buffer1 = buffer @ [c];
             position = length buffer1
         in if position \<ge> bufsize then
              (let bufsize1 = bufsize + NOOSH_RL_BUFSIZE in
               if malloc_ok sys bufsize1 then read_loop sys input buffer1 bufsize1 w
               else Exits EXIT_FAILURE
                      (fprintf_stderr ''noosh: allocation error\<newline>'' (w\<lparr>stdin := input\<rparr>)))
            else read_loop sys input buffer1 bufsize w))"

definition noosh_read_line :: "os \<Rightarrow> world \<Rightarrow> string outcome" where
  "noosh_read_line sys w =
     (let bufsize = NOOSH_RL_BUFSIZE in
      if \<not> malloc_ok sys bufsize then
        Exits EXIT_FAILURE (fprintf_stderr ''noosh: allocation error\<newline>'' w)
      else read_loop sys (stdin w) [] bufsize w)"

section \<open>The builtins\<close>

text \<open>
  An argument vector \<^verbatim>\<open>char **args\<close> is the list of its tokens; the slot behind the last
  token holds NULL. Tokens are C strings, so \<^verbatim>\<open>strcmp(a, b) == 0\<close> is \<open>a = b\<close>.
\<close>

definition arg :: "string list \<Rightarrow> nat \<Rightarrow> string option" where
  "arg args i = (if i < length args then Some (args ! i) else None)"

definition builtin_str :: "string list" where
  "builtin_str = [''cd'', ''pwd'', ''help'', ''exit'']"

definition noosh_num_builtins :: nat where
  "noosh_num_builtins = length builtin_str"

definition noosh_cd :: "os \<Rightarrow> string list \<Rightarrow> world \<Rightarrow> int outcome" where
  "noosh_cd sys args w =
     (case arg args 1 of
        None \<Rightarrow>
          Returns 1 (fprintf_stderr
            (''noosh: expected argument to '' @ [CHR 0x22] @ ''cd'' @ [CHR 0x22, CHR 0x0A]) w)
      | Some path \<Rightarrow>
          (case chdir_sys sys (cwd w) path of
             Inl errno \<Rightarrow> Returns 1 (perror sys ''noosh'' errno w)
           | Inr dir \<Rightarrow> Returns 1 (w\<lparr>cwd := dir\<rparr>)))"

text \<open>\<^verbatim>\<open>getcwd(buf, size)\<close> fails with \<^verbatim>\<open>ERANGE\<close> when the path and its NUL do not fit,
  or for a reason of the system's; otherwise \<open>buf\<close> holds the working directory.\<close>

definition getcwd :: "os \<Rightarrow> nat \<Rightarrow> world \<Rightarrow> nat + string" where
  "getcwd sys bufsize w =
     (if bufsize < length (cwd w) + 1 then Inl ERANGE
      else case getcwd_sys sys (cwd w) of Some errno \<Rightarrow> Inl errno | None \<Rightarrow> Inr (cwd w))"

text \<open>\<^verbatim>\<open>noosh_pwd\<close> of \<^verbatim>\<open>src/main.c\<close>.\<close>

definition noosh_pwd :: "os \<Rightarrow> string list \<Rightarrow> world \<Rightarrow> int outcome" where
  "noosh_pwd sys args w =
     (if \<not> malloc_ok sys PATH_MAX then
        Exits EXIT_FAILURE (perror sys ''noosh: allocation error\<newline>'' ENOMEM w)
      else case getcwd sys PATH_MAX w of
             Inr buf \<Rightarrow> Returns 1 (printf (buf @ ''\<newline>'') w)
           | Inl errno \<Rightarrow> Exits EXIT_FAILURE (perror sys ''noosh'' errno w))"

text \<open>\<^verbatim>\<open>get_cwd\<close> and \<^verbatim>\<open>noosh_pwd\<close> of \<^verbatim>\<open>src/noosh.c\<close>.\<close>

definition get_cwd :: "os \<Rightarrow> world \<Rightarrow> string outcome" where
  "get_cwd sys w =
     (if \<not> malloc_ok sys PATH_MAX then
        Exits EXIT_FAILURE (perror sys ''noosh: allocation error\<newline>'' ENOMEM w)
      else case getcwd sys PATH_MAX w of
             Inr buf \<Rightarrow> Returns buf w
           | Inl errno \<Rightarrow> Exits EXIT_FAILURE (perror sys ''noosh'' errno w))"

definition noosh_pwd_get_cwd :: "os \<Rightarrow> string list \<Rightarrow> world \<Rightarrow> int outcome" where
  "noosh_pwd_get_cwd sys args w =
     (case get_cwd sys w of
        Returns buf w1 \<Rightarrow> Returns 1 (printf (buf @ ''\<newline>'') w1)
      | Exits code w1 \<Rightarrow> Exits code w1)"

definition noosh_help :: "os \<Rightarrow> string list \<Rightarrow> world \<Rightarrow> int outcome" where
  "noosh_help sys args w =
     (let w1 = printf ''noosh\<newline>'' w;
          w2 = printf ''Type program names and arguments, and hit enter.\<newline>'' w1;
          w3 = printf ''The following are built in:\<newline>'' w2;
          w4 = fold (\<lambda>i. printf (''  '' @ builtin_str ! i @ ''\<newline>''))
                 [0..<noosh_num_builtins] w3
      in Returns 1
           (printf ''Use the man command for information on other programs.\<newline>'' w4))"

definition noosh_exit :: "os \<Rightarrow> string list \<Rightarrow> world \<Rightarrow> int outcome" where
  "noosh_exit sys args w = Returns 0 w"

definition builtin_func :: "(os \<Rightarrow> string list \<Rightarrow> world \<Rightarrow> int outcome) list" where
  "builtin_func = [noosh_cd, noosh_pwd, noosh_help, noosh_exit]"

section \<open>The process launcher\<close>

text \<open>
  \<open>waitpid_sys sys args k\<close> is the status the \<open>k\<close>-th \<^verbatim>\<open>waitpid\<close> call reports for the
  child running \<open>args\<close>, or \<open>None\<close> when that call never returns because the child
  neither ends nor stops. The loop asks again as long as the child has only stopped.
\<close>

definition WIFEXITED :: "wstatus \<Rightarrow> bool" where
  "WIFEXITED status = (case status of WExited code \<Rightarrow> True | _ \<Rightarrow> False)"

definition WIFSIGNALED :: "wstatus \<Rightarrow> bool" where
  "WIFSIGNALED status = (case status of WSignaled sig \<Rightarrow> True | _ \<Rightarrow> False)"

partial_function (option) wait_loop :: "(nat \<Rightarrow> wstatus option) \<Rightarrow> nat \<Rightarrow> wstatus option" where
  "wait_loop reports k =
     (case reports k of
        None \<Rightarrow> None
      | Some status \<Rightarrow>
          if \<not> WIFEXITED status \<and> \<not> WIFSIGNALED status then wait_loop reports (Suc k)
          else Some status)"

declare wait_loop.simps [code]

text \<open>
  The branch \<^verbatim>\<open>pid == 0\<close>, run by the child: \<^verbatim>\<open>execvp\<close> either replaces the image by
  the program, which reads and writes the streams it shares with the shell and whose
  state changes the system reports, or fails, and then the child prints the error and
  exits with \<^verbatim>\<open>EXIT_FAILURE\<close>.
\<close>

definition launch_child :: "os \<Rightarrow> string list \<Rightarrow> world \<Rightarrow> world \<times> (nat \<Rightarrow> wstatus option)" where
  "launch_child sys args w =
     (let w1 = w\<lparr>children := children w @ [args]\<rparr> in
      case execvp_sys sys args of
        Some errno \<Rightarrow> (perror sys ''noosh'' errno w1, \<lambda>k. Some (WExited EXIT_FAILURE))
      | None \<Rightarrow>
          (case program_io sys args (stdin w1) of
             (input, out, err) \<Rightarrow>
               (w1\<lparr>stdin := input, stdout := stdout w1 @ out, stderr := stderr w1 @ err\<rparr>,
                waitpid_sys sys args)))"

definition noosh_launch :: "os \<Rightarrow> string list \<Rightarrow> world \<Rightarrow> int outcome option" where
  "noosh_launch sys args w =
     (case fork_sys sys of
        Some errno \<Rightarrow> Some (Returns 1 (perror sys ''noosh'' errno w))
      | None \<Rightarrow>
          (case launch_child sys args w of
             (w1, reports) \<Rightarrow>
               (case wait_loop reports 0 of
                  None \<Rightarrow> None
                | Some status \<Rightarrow> Some (Returns 1 w1))))"

section \<open>Dispatch and the loop\<close>

function execute_loop ::
  "os \<Rightarrow> string list \<Rightarrow> string \<Rightarrow> nat \<Rightarrow> world \<Rightarrow> int outcome option"
where
  "execute_loop sys args arg0 i w =
     (if i < noosh_num_builtins then
        (if arg0 = builtin_str ! i then Some ((builtin_func ! i) sys args w)
         else execute_loop sys args arg0 (i + 1) w)
      else noosh_launch sys args w)"
  by pat_completeness auto
termination
  by (relation "measure (\<lambda>(sys, args, arg0, i, w). noosh_num_builtins - i)") auto

definition noosh_execute :: "os \<Rightarrow> string list \<Rightarrow> world \<Rightarrow> int outcome option" where
  "noosh_execute sys args w =
     (case arg args 0 of
        None \<Rightarrow> Some (Returns 1 w)
      | Some arg0 \<Rightarrow> execute_loop sys args arg0 0 w)"

text \<open>One pass through the body of the \<^verbatim>\<open>do ... while (status)\<close> of \<^verbatim>\<open>noosh_loop\<close>
  in \<^verbatim>\<open>src/main.c\<close>, yielding \<open>status\<close>.\<close>

definition loop_body :: "os \<Rightarrow> world \<Rightarrow> int outcome option" where
  "loop_body sys w =
     (case noosh_read_line sys (printf ''> '' w) of
        Exits code w1 \<Rightarrow> Some (Exits code w1)
      | Returns line w1 \<Rightarrow>
          (case noosh_split_line sys line w1 of
             Exits code w2 \<Rightarrow> Some (Exits code w2)
           | Returns args w2 \<Rightarrow> noosh_execute sys (argv args) w2))"

partial_function (option) noosh_loop :: "os \<Rightarrow> world \<Rightarrow> unit outcome option" where
  "noosh_loop sys w =
     (case loop_body sys w of
        None \<Rightarrow> None
      | Some (Exits code w1) \<Rightarrow> Some (Exits code w1)
      | Some (Returns status w1) \<Rightarrow>
          if status \<noteq> 0 then noosh_loop sys w1 else Some (Returns () w1))"

declare noosh_loop.simps [code]

text \<open>\<^verbatim>\<open>main\<close>: the exit code of the process and the world it leaves, or \<open>None\<close> when the
  process never ends.\<close>

definition main :: "os \<Rightarrow> world \<Rightarrow> (int \<times> world) option" where
  "main sys w =
     (case noosh_loop sys w of
        None \<Rightarrow> None
      | Some (Exits code w1) \<Rightarrow> Some (code, w1)
      | Some (Returns u w1) \<Rightarrow> Some (EXIT_SUCCESS, w1))"

section \<open>What the tokenizer computes\<close>

text \<open>
  \<open>tokens_from token\<close> lists the tokens the remaining \<^verbatim>\<open>strtok\<close> calls of the loop
  return, \<open>token\<close> being the result of the call just made. \<open>grow_ok sys k\<close> says that the
  system grants the request for \<open>k + 1\<close> blocks of \<^verbatim>\<open>NOOSH_TOK_BUFSIZE\<close> slots, and
  \<open>capacity n\<close> is the number of slots the array has once \<open>n\<close> tokens are stored.
\<close>

function tokens_from :: "(string \<times> string) option \<Rightarrow> string list" where
  "tokens_from None = []"
| "tokens_from (Some (token, save)) = token # tokens_from (strtok save NOOSH_TOK_DELIM)"
  by pat_completeness auto
termination
proof (relation "measure (\<lambda>token. case token of None \<Rightarrow> 0 | Some (t, save) \<Rightarrow> Suc (length save))")
qed (auto split: option.splits dest: strtok_shorter)

definition alloc_error :: "world \<Rightarrow> slot list outcome" where
  "alloc_error w = Exits EXIT_FAILURE (fprintf_stderr ''noosh: allocation error\<newline>'' w)"

definition grow_ok :: "os \<Rightarrow> nat \<Rightarrow> bool" where
  "grow_ok sys k = malloc_ok sys (NOOSH_TOK_BUFSIZE * Suc k * sizeof_ptr sys)"

definition capacity :: "nat \<Rightarrow> nat" where
  "capacity n = NOOSH_TOK_BUFSIZE * Suc (n div NOOSH_TOK_BUFSIZE)"

lemma tok_bufsize_pos: "0 < NOOSH_TOK_BUFSIZE"
  by (simp add: NOOSH_TOK_BUFSIZE_def)

lemma update_at_end: "length pre = position \<Longrightarrow> position < bufsize \<Longrightarrow>
  (pre @ replicate (bufsize - position) Uninit)[position := x]
    = pre @ x # replicate (bufsize - Suc position) Uninit"
  by (cases "bufsize - position") (auto simp: list_update_append Suc_diff_Suc)

lemma all_from_Suc:
  "Suc q \<le> m \<Longrightarrow>
   (\<forall>k. q < k \<and> k \<le> m \<longrightarrow> P k) \<longleftrightarrow> P (Suc q) \<and> (\<forall>k. Suc q < k \<and> k \<le> m \<longrightarrow> P k)"
  by (auto simp: less_Suc_eq_le intro: le_neq_implies_less dest: Suc_leI)

lemma split_loop_spec:
  assumes "length pre = position"
    and "NOOSH_TOK_BUFSIZE * q \<le> position" and "position < NOOSH_TOK_BUFSIZE * Suc q"
    and "bufsize = NOOSH_TOK_BUFSIZE * Suc q"
    and "tokens = pre @ replicate (bufsize - position) Uninit"
  shows "split_loop sys tk tokens bufsize position w =
    (if (\<forall>k. q < k \<and> k \<le> (position + length (tokens_from tk)) div NOOSH_TOK_BUFSIZE
            \<longrightarrow> grow_ok sys k)
     then Returns (pre @ map Tok (tokens_from tk) @
            Null # replicate (capacity (position + length (tokens_from tk))
                               - Suc (position + length (tokens_from tk))) Uninit) w
     else alloc_error w)"
  using assms
proof (induction sys tk tokens bufsize position w arbitrary: pre q rule: split_loop.induct)
  case (1 sys tokens bufsize position w)
  have "position div NOOSH_TOK_BUFSIZE = q"
    using "1.prems"(2,3) by (intro div_nat_eqI) (simp_all add: mult.commute)
  then show ?case using "1.prems" by (auto simp: update_at_end capacity_def)
next
  case (2 sys token save tokens bufsize position w)
  let ?B = NOOSH_TOK_BUFSIZE
  let ?rest = "tokens_from (strtok save NOOSH_TOK_DELIM)"
  define N where "N = Suc position + length ?rest"
  have n: "position + length (tokens_from (Some (token, save))) = N"
    and n1: "position + 1 + length ?rest = N"
    by (simp_all add: N_def)
  have toks: "pre @ map Tok (tokens_from (Some (token, save))) @ xs
              = (pre @ [Tok token]) @ map Tok ?rest @ xs" for xs
    by simp
  have lt: "position < bufsize" using "2.prems" by simp
  have upd: "tokens[position := Tok token]
             = (pre @ [Tok token]) @ replicate (bufsize - (position + 1)) Uninit"
    using "2.prems" lt by (simp add: update_at_end)
  have len: "length (pre @ [Tok token]) = position + 1"
    using "2.prems"(1) by simp
  show ?case
  proof (cases "position + 1 \<ge> bufsize")
    case True
    then have eq: "bufsize = position + 1" using lt by simp
    have q1: "?B * Suc q \<le> position + 1" "position + 1 < ?B * Suc (Suc q)"
      "bufsize + ?B = ?B * Suc (Suc q)"
      using eq "2.prems"(4) tok_bufsize_pos by simp_all
    have re: "realloc_slots (tokens[position := Tok token]) (bufsize + ?B)
               = (pre @ [Tok token]) @ replicate (bufsize + ?B - (position + 1)) Uninit"
      using upd eq "2.prems"(1) by (simp add: realloc_slots_def)
    have "Suc q * ?B \<le> N" using q1(1) by (simp add: mult.commute N_def)
    then have ge: "Suc q \<le> N div ?B"
      using tok_bufsize_pos by (simp add: less_eq_div_iff_mult_less_eq)
    have all: "(\<forall>k. q < k \<and> k \<le> N div ?B \<longrightarrow> grow_ok sys k) \<longleftrightarrow>
               grow_ok sys (Suc q) \<and> (\<forall>k. Suc q < k \<and> k \<le> N div ?B \<longrightarrow> grow_ok sys k)"
      using ge by (rule all_from_Suc)
    have grow: "grow_ok sys (Suc q) = malloc_ok sys ((bufsize + ?B) * sizeof_ptr sys)"
      unfolding q1(3) grow_ok_def ..
    show ?thesis
    proof (cases "malloc_ok sys ((bufsize + ?B) * sizeof_ptr sys)")
      case ok: True
      have step: "split_loop sys (Some (token, save)) tokens bufsize position w =
                  split_loop sys (strtok save NOOSH_TOK_DELIM)
                    (realloc_slots (tokens[position := Tok token]) (bufsize + ?B))
                    (bufsize + ?B) (position + 1) w"
        using True ok by (simp add: Let_def)
      note IH = "2.IH"(1)[OF refl refl True refl ok len q1 re, unfolded n1]
      show ?thesis
        unfolding n toks step IH all using ok grow by simp
    next
      case no: False
      have step: "split_loop sys (Some (token, save)) tokens bufsize position w = alloc_error w"
        using True no by (simp add: Let_def alloc_error_def)
      show ?thesis
        unfolding n step all using no grow by simp
    qed
  next
    case False
    have step: "split_loop sys (Some (token, save)) tokens bufsize position w =
                split_loop sys (strtok save NOOSH_TOK_DELIM)
                  (tokens[position := Tok token]) bufsize (position + 1) w"
      using False by (simp add: Let_def)
    have q2: "?B * q \<le> position + 1" "position + 1 < ?B * Suc q"
      using False "2.prems"(2,4) by simp_all
    note IH = "2.IH"(2)[OF refl refl False len q2 "2.prems"(4) upd, unfolded n1]
    show ?thesis
      unfolding n toks step IH ..
  qed
qed

text \<open>The tokens of a line: what the \<^verbatim>\<open>strtok\<close> calls of \<^verbatim>\<open>noosh_split_line\<close> return,
  in order.\<close>

definition tokenize :: "string \<Rightarrow> string list" where
  "tokenize line = tokens_from (strtok line NOOSH_TOK_DELIM)"

text \<open>
  The specification's reading of the tokenizer: the delimiter set is space, tab, carriage
  return, newline and bell; a run starts at a position that holds a non-delimiter and is
  the first of the line or follows a delimiter, and it extends as far as no delimiter
  occurs. \<open>maximal_runs\<close> lists the runs from left to right. \<open>runs_after p\<close> is the same
  list when \<open>p\<close> tells whether a run may start at position 0.
\<close>

definition delimiters :: "char set" where
  "delimiters = {CHR '' '', CHR 0x09, CHR 0x0D, CHR 0x0A, CHR 0x07}"

definition run_starts :: "string \<Rightarrow> nat list" where
  "run_starts s =
     filter (\<lambda>i. s ! i \<notin> delimiters \<and> (i = 0 \<or> s ! (i - 1) \<in> delimiters)) [0..<length s]"

definition maximal_runs :: "string \<Rightarrow> string list" where
  "maximal_runs s = map (\<lambda>i. takeWhile (\<lambda>c. c \<notin> delimiters) (drop i s)) (run_starts s)"

definition runs_after :: "bool \<Rightarrow> string \<Rightarrow> string list" where
  "runs_after p s =
     map (\<lambda>i. takeWhile (\<lambda>c. c \<notin> delimiters) (drop i s))
       (filter (\<lambda>i. s ! i \<notin> delimiters \<and> (if i = 0 then p else s ! (i - 1) \<in> delimiters))
          [0..<length s])"

lemma delimiters_eq: "set NOOSH_TOK_DELIM = delimiters"
  by (simp add: NOOSH_TOK_DELIM_def delimiters_def)

lemma noosh_split_line_spec:
  "noosh_split_line sys line w =
    (if (\<forall>k. k \<le> length (tokenize line) div NOOSH_TOK_BUFSIZE \<longrightarrow> grow_ok sys k)
     then Returns (map Tok (tokenize line) @
            Null # replicate (capacity (length (tokenize line)) - Suc (length (tokenize line))) Uninit) w
     else alloc_error w)"
proof (cases "grow_ok sys 0")
  case True
  have all: "(\<forall>k. k \<le> m \<longrightarrow> grow_ok sys k) \<longleftrightarrow> (\<forall>k. 0 < k \<and> k \<le> m \<longrightarrow> grow_ok sys k)" for m
    using True by (metis gr0I)
  have loop: "split_loop sys (strtok line NOOSH_TOK_DELIM) (malloc_slots NOOSH_TOK_BUFSIZE)
                NOOSH_TOK_BUFSIZE 0 w =
    (if (\<forall>k. 0 < k \<and> k \<le> (0 + length (tokens_from (strtok line NOOSH_TOK_DELIM)))
                              div NOOSH_TOK_BUFSIZE \<longrightarrow> grow_ok sys k)
     then Returns ([] @ map Tok (tokens_from (strtok line NOOSH_TOK_DELIM)) @
            Null # replicate (capacity (0 + length (tokens_from (strtok line NOOSH_TOK_DELIM)))
                        - Suc (0 + length (tokens_from (strtok line NOOSH_TOK_DELIM)))) Uninit) w
     else alloc_error w)"
    by (rule split_loop_spec[where q = 0]) (simp_all add: tok_bufsize_pos malloc_slots_def)
  have top: "noosh_split_line sys line w =
             split_loop sys (strtok line NOOSH_TOK_DELIM) (malloc_slots NOOSH_TOK_BUFSIZE)
                NOOSH_TOK_BUFSIZE 0 w"
    using True by (simp add: noosh_split_line_def grow_ok_def)
  show ?thesis
    unfolding top loop all tokenize_def by auto
next
  case False
  then have "\<not> (\<forall>k. k \<le> length (tokenize line) div NOOSH_TOK_BUFSIZE \<longrightarrow> grow_ok sys k)"
    by (meson le0)
  then show ?thesis
    using False by (simp add: noosh_split_line_def grow_ok_def alloc_error_def)
qed

lemma runs_after_Nil: "runs_after p [] = []"
  by (simp add: runs_after_def)

lemma runs_after_Cons:
  "runs_after p (c # cs) =
     (if c \<notin> delimiters \<and> p then [takeWhile (\<lambda>c. c \<notin> delimiters) (c # cs)] else [])
     @ runs_after (c \<in> delimiters) cs"
proof -
  have upt: "[0..<length (c # cs)] = 0 # map Suc [0..<length cs]"
    by (simp add: upt_conv_Cons map_Suc_upt del: upt_Suc)
  have pred: "(c # cs) ! i = (if i = 0 then c else cs ! (i - 1))" for i
    by (simp add: nth_Cons')
  show ?thesis
    unfolding runs_after_def upt
    by (simp add: filter_map comp_def pred cong: if_cong)
qed

lemma c_str_id: "CHR 0x00 \<notin> set s \<Longrightarrow> c_str s = s"
  by (auto simp: c_str_def takeWhile_eq_all_conv)

lemma c_str_nul_free: "CHR 0x00 \<notin> set (c_str s)"
  by (auto simp: c_str_def dest: set_takeWhileD)

lemma tokenize_c_str: "tokenize (c_str s) = tokenize s"
  by (simp add: tokenize_def strtok_def c_str_id c_str_nul_free)

lemma nul_not_delim: "CHR 0x00 \<notin> delimiters"
  by (simp add: delimiters_def)

lemma tokenize_Nil: "tokenize [] = []"
  by (simp add: tokenize_def strtok_def c_str_def)

lemma tokenize_delim:
  assumes "c \<in> delimiters" and "CHR 0x00 \<notin> set cs"
  shows "tokenize (c # cs) = tokenize cs"
proof -
  have "c \<noteq> CHR 0x00" using assms(1) nul_not_delim by auto
  then have "c_str (c # cs) = c # cs" "c_str cs = cs"
    using assms(2) by (simp_all add: c_str_id)
  then have "strtok (c # cs) NOOSH_TOK_DELIM = strtok cs NOOSH_TOK_DELIM"
    using assms(1) by (simp add: strtok_def delimiters_eq)
  then show ?thesis by (simp add: tokenize_def)
qed

lemma tokenize_token:
  assumes "c \<notin> delimiters" and "c \<noteq> CHR 0x00" and "CHR 0x00 \<notin> set cs"
  shows "tokenize (c # cs) =
           takeWhile (\<lambda>c. c \<notin> delimiters) (c # cs)
           # tokenize (drop 1 (dropWhile (\<lambda>c. c \<notin> delimiters) cs))"
proof -
  have "c_str (c # cs) = c # cs"
    using assms(2,3) by (simp add: c_str_id)
  then have "strtok (c # cs) NOOSH_TOK_DELIM =
       Some (takeWhile (\<lambda>c. c \<notin> delimiters) (c # cs),
             drop 1 (dropWhile (\<lambda>c. c \<notin> delimiters) cs))"
    using assms(1) by (simp add: strtok_def delimiters_eq)
  then show ?thesis by (simp add: tokenize_def)
qed

lemma runs_after_False:
  "runs_after False s = runs_after True (drop 1 (dropWhile (\<lambda>c. c \<notin> delimiters) s))"
  by (induction s) (simp_all add: runs_after_Nil runs_after_Cons)

lemma maximal_runs_after: "maximal_runs s = runs_after True s"
  unfolding maximal_runs_def run_starts_def runs_after_def
  by (rule arg_cong[where f = "map _"], rule filter_cong) auto

lemma nul_free_rest:
  "CHR 0x00 \<notin> set cs \<Longrightarrow> CHR 0x00 \<notin> set (drop 1 (dropWhile P cs))"
  by (meson in_set_dropD set_dropWhileD)

lemma tokenize_runs_after:
  "CHR 0x00 \<notin> set s \<Longrightarrow> tokenize s = runs_after True s"
proof (induction s rule: length_induct)
  case (1 s)
  show ?case
  proof (cases s)
    case Nil
    then show ?thesis by (simp add: tokenize_Nil runs_after_Nil)
  next
    case (Cons c cs)
    have nul: "c \<noteq> CHR 0x00" "CHR 0x00 \<notin> set cs"
      using "1.prems" Cons by auto
    show ?thesis
    proof (cases "c \<in> delimiters")
      case True
      have "tokenize cs = runs_after True cs"
        using "1.IH" nul(2) Cons by simp
      then show ?thesis
        using True nul Cons by (simp add: tokenize_delim runs_after_Cons)
    next
      case False
      let ?rest = "drop 1 (dropWhile (\<lambda>c. c \<notin> delimiters) cs)"
      have "length (dropWhile (\<lambda>c. c \<notin> delimiters) cs) \<le> length cs"
        by (rule length_dropWhile_le)
      then have "length ?rest < length s"
        using Cons by simp
      then have "tokenize ?rest = runs_after True ?rest"
        using "1.IH" nul(2) nul_free_rest by blast
      then show ?thesis
        using False nul Cons by (simp add: tokenize_token runs_after_Cons runs_after_False)
    qed
  qed
qed

lemma tokenize_maximal_runs: "tokenize line = maximal_runs (c_str line)"
  by (metis tokenize_c_str tokenize_runs_after c_str_nul_free maximal_runs_after)

text \<open>Joining tokens with single spaces.\<close>

definition join_spaces :: "string list \<Rightarrow> string" where
  "join_spaces ts =
     concat (case ts of [] \<Rightarrow> [] | t # rest \<Rightarrow> t # map (\<lambda>u. CHR '' '' # u) rest)"

text \<open>
  A concrete system and concrete worlds, for running the model: every allocation is
  granted, \<^verbatim>\<open>chdir\<close> succeeds for \<^verbatim>\<open>/tmp\<close> only, \<^verbatim>\<open>ls\<close> is the only program found; its
  child is stopped twice before it exits with status 0.
\<close>

definition host :: os where
  "host = \<lparr>sizeof_ptr = 8, malloc_ok = (\<lambda>n. True),
     strerror = (\<lambda>errno. ''No such file or directory''),
     chdir_sys = (\<lambda>dir path. if path = ''/tmp'' then Inr ''/tmp'' else Inl 2),
     getcwd_sys = (\<lambda>dir. None), fork_sys = None,
     execvp_sys = (\<lambda>args. if args ! 0 = ''ls'' then None else Some 2),
     program_io = (\<lambda>args input. (input, ''main.c\<newline>'', [])),
     waitpid_sys = (\<lambda>args k. if k < 2 then Some (WStopped 19) else Some (WExited 0))\<rparr>"

definition start :: "string \<Rightarrow> world" where
  "start input = \<lparr>stdin = input, stdout = [], stderr = [], cwd = ''/home'', children = []\<rparr>"

lemma argv_tokens: "argv (map Tok ts @ Null # slots) = ts"
  by (induction ts) simp_all

lemma split_line_total:
  assumes "\<forall>n. malloc_ok sys n"
  shows "noosh_split_line sys line w =
     Returns (map Tok (tokenize line) @
        Null # replicate (capacity (length (tokenize line)) - Suc (length (tokenize line))) Uninit) w"
  using assms by (simp add: noosh_split_line_spec grow_ok_def)

lemma split_line_ReturnsD:
  assumes "noosh_split_line sys line w = Returns args w'"
  shows "args = map Tok (tokenize line) @
        Null # replicate (capacity (length (tokenize line)) - Suc (length (tokenize line))) Uninit"
    and "w' = w"
  using assms unfolding noosh_split_line_spec alloc_error_def
  by (simp_all split: if_splits)

text \<open>What every token is: non-empty, free of delimiters and of NUL.\<close>

definition good_token :: "string \<Rightarrow> bool" where
  "good_token t \<longleftrightarrow> t \<noteq> [] \<and> set t \<inter> delimiters = {} \<and> CHR 0x00 \<notin> set t"

lemma strtok_good_token:
  assumes "strtok s NOOSH_TOK_DELIM = Some (token, save)"
  shows "good_token token"
proof -
  define s1 where "s1 = dropWhile (\<lambda>c. c \<in> delimiters) (c_str s)"
  from assms have ne: "s1 \<noteq> []" and tok: "token = takeWhile (\<lambda>c. c \<notin> delimiters) s1"
    by (auto simp: strtok_def s1_def Let_def delimiters_eq split: if_splits)
  have "hd s1 \<notin> delimiters"
    using ne hd_dropWhile[of "\<lambda>c. c \<in> delimiters" "c_str s"] by (simp add: s1_def)
  then have "token \<noteq> []"
    using ne tok by (cases s1) simp_all
  moreover have "set token \<inter> delimiters = {}"
    using tok by (auto dest: set_takeWhileD)
  moreover have "set token \<subseteq> set (c_str s)"
    unfolding tok s1_def by (meson set_takeWhileD set_dropWhileD subsetI)
  then have "CHR 0x00 \<notin> set token"
    using c_str_nul_free by blast
  ultimately show ?thesis by (simp add: good_token_def)
qed

lemma tokens_from_good:
  "(\<And>token save. tk = Some (token, save) \<Longrightarrow> good_token token)
   \<Longrightarrow> t \<in> set (tokens_from tk) \<Longrightarrow> good_token t"
proof (induction tk rule: tokens_from.induct)
  case 1
  then show ?case by simp
next
  case (2 token save)
  then show ?case
    by (cases "strtok save NOOSH_TOK_DELIM") (auto dest: strtok_good_token)
qed

lemma tokenize_good: "t \<in> set (tokenize line) \<Longrightarrow> good_token t"
  unfolding tokenize_def by (erule tokens_from_good[rotated]) (rule strtok_good_token)

lemma tokenize_append:
  assumes "good_token t" and "CHR 0x00 \<notin> set rest" and "rest = [] \<or> hd rest \<in> delimiters"
  shows "tokenize (t @ rest) = t # tokenize (drop 1 rest)"
proof -
  obtain a t' where t: "t = a # t'" and a: "a \<notin> delimiters"
    using assms(1) by (cases t) (auto simp: good_token_def)
  have all: "\<forall>c\<in>set t. c \<notin> delimiters"
    using assms(1) by (auto simp: good_token_def)
  have "c_str (t @ rest) = t @ rest"
    using assms(1,2) by (simp add: c_str_id good_token_def)
  moreover have "dropWhile (\<lambda>c. c \<in> delimiters) (t @ rest) = t @ rest"
    using t a by simp
  moreover have "takeWhile (\<lambda>c. c \<notin> delimiters) (t @ rest) = t"
    using all assms(3) by (cases rest) (simp_all add: takeWhile_append2)
  moreover have "dropWhile (\<lambda>c. c \<notin> delimiters) (t @ rest) = rest"
    using all assms(3) by (cases rest) (simp_all add: dropWhile_append2)
  ultimately have "strtok (t @ rest) NOOSH_TOK_DELIM = Some (t, drop 1 rest)"
    using t by (simp add: strtok_def delimiters_eq)
  then show ?thesis by (simp add: tokenize_def)
qed

lemma tokenize_join:
  assumes "\<forall>t\<in>set ts. good_token t"
  shows "tokenize (join_spaces ts) = ts"
proof (cases ts)
  case Nil
  then show ?thesis by (simp add: join_spaces_def tokenize_Nil)
next
  case (Cons t rest)
  have "\<forall>u\<in>set rest. good_token u \<Longrightarrow> good_token t \<Longrightarrow>
        tokenize (t @ concat (map (\<lambda>u. CHR '' '' # u) rest)) = t # rest" for t rest
  proof (induction rest arbitrary: t)
    case Nil
    then show ?case
      using tokenize_append[of t "[]"] by (simp add: tokenize_Nil)
  next
    case (Cons u rest)
    let ?tail = "concat (map (\<lambda>u. CHR '' '' # u) (u # rest))"
    have "CHR 0x00 \<notin> set ?tail"
      using Cons.prems(1) by (auto simp: good_token_def)
    moreover have "hd ?tail \<in> delimiters"
      by (simp add: delimiters_def)
    ultimately have "tokenize (t @ ?tail) = t # tokenize (drop 1 ?tail)"
      using Cons.prems(2) by (intro tokenize_append) simp_all
    also have "drop 1 ?tail = u @ concat (map (\<lambda>u. CHR '' '' # u) rest)"
      by simp
    also have "tokenize \<dots> = u # rest"
      using Cons.prems(1) by (intro Cons.IH) simp_all
    finally show ?case .
  qed
  then show ?thesis
    using assms Cons by (simp add: join_spaces_def)
qed

lemma tokenize_idem: "tokenize (join_spaces (tokenize line)) = tokenize line"
  by (rule tokenize_join) (simp add: tokenize_good)

lemma tokenize_delims_only:
  assumes "set line \<subseteq> delimiters"
  shows "tokenize line = []"
proof -
  have "CHR 0x00 \<notin> set line"
    using assms nul_not_delim by auto
  then have "c_str line = line" by (rule c_str_id)
  moreover have "dropWhile (\<lambda>c. c \<in> delimiters) line = []"
    using assms by auto
  ultimately show ?thesis
    by (simp add: tokenize_def strtok_def delimiters_eq)
qed

lemma capacity_gt: "n < capacity n"
  unfolding capacity_def using tok_bufsize_pos
  by (metis dividend_less_times_div mult.commute add.commute mult_Suc)

lemma split_line_shape:
  assumes "noosh_split_line sys line w = Returns args w'"
  shows "argv args = tokenize line"
    and "length args = capacity (length (tokenize line))"
    and "\<forall>i<length (tokenize line). args ! i = Tok (tokenize line ! i)"
    and "args ! length (tokenize line) = Null"
    and "\<forall>i<length args. args ! i = Null \<longrightarrow> i = length (tokenize line)"
proof -
  let ?ts = "tokenize line"
  let ?n = "length ?ts"
  have args: "args = map Tok ?ts @ Null # replicate (capacity ?n - Suc ?n) Uninit"
    using assms by (rule split_line_ReturnsD)
  show "argv args = ?ts"
    unfolding args by (rule argv_tokens)
  show "length args = capacity ?n"
    unfolding args using capacity_gt[of ?n] by simp
  show "\<forall>i<?n. args ! i = Tok (?ts ! i)"
    unfolding args by (simp add: nth_append)
  show "args ! ?n = Null"
    unfolding args by (simp add: nth_append)
  show "\<forall>i<length args. args ! i = Null \<longrightarrow> i = ?n"
    unfolding args by (auto simp: nth_append nth_Cons' split: if_splits)
qed

lemma host_grants: "\<forall>n. malloc_ok host n"
  by (simp add: host_def)

text \<open>
  For the growth of the array: the number of slots of the array a call returns, a line of
  \<open>n\<close> one-letter words, what it means for successive sizes to form a geometric
  progression (each is the same multiple of the one before), and a system that refuses
  every request above 1024 bytes.
\<close>

definition slots_of :: "slot list outcome \<Rightarrow> nat" where
  "slots_of r = (case r of Returns args w \<Rightarrow> length args | Exits code w \<Rightarrow> 0)"

fun geometric :: "nat list \<Rightarrow> bool" where
  "geometric (a # b # c # cs) \<longleftrightarrow> b * b = a * c \<and> geometric (b # c # cs)"
| "geometric _ \<longleftrightarrow> True"

definition words :: "nat \<Rightarrow> string" where
  "words n = concat (replicate n ''a '')"

definition small_heap :: os where
  "small_heap = host\<lparr>malloc_ok := (\<lambda>n. n \<le> 1024)\<rparr>"

lemma tokenize_words: "tokenize (words n) = replicate n ''a''"
proof (induction n)
  case 0
  then show ?case by (simp add: words_def tokenize_Nil)
next
  case (Suc n)
  have "tokenize (''a'' @ CHR '' '' # words n) = ''a'' # tokenize (drop 1 (CHR '' '' # words n))"
    by (rule tokenize_append) (auto simp: good_token_def delimiters_def words_def)
  then show ?case
    using Suc by (simp add: words_def)
qed

lemma slots_of_split:
  "(\<forall>n. malloc_ok sys n) \<Longrightarrow>
   slots_of (noosh_split_line sys line w) = capacity (length (tokenize line))"
  using capacity_gt[of "length (tokenize line)"]
  by (simp add: split_line_total slots_of_def)

lemma exec_empty: "noosh_execute sys [] w = Some (Returns 1 w)"
  by (simp add: noosh_execute_def arg_def)

lemma read_blank:
  "noosh_read_line host (printf ''> '' (start ('' '' @ [CHR 0x09, CHR 0x0A] @ ''ls'')))
     = Returns ('' '' @ [CHR 0x09]) ((start ''ls'')\<lparr>stdout := ''> ''\<rparr>)"
  by (simp add: noosh_read_line_def host_def start_def printf_def NOOSH_RL_BUFSIZE_def)

text \<open>The usage line of \<^verbatim>\<open>cd\<close>, and a system whose \<^verbatim>\<open>getcwd\<close> fails with
  \<^verbatim>\<open>ENOENT\<close> (the working directory was removed).\<close>

definition cd_usage :: string where
  "cd_usage = ''noosh: expected argument to '' @ [CHR 0x22] @ ''cd'' @ [CHR 0x22, CHR 0x0A]"

definition no_cwd :: os where
  "no_cwd = host\<lparr>getcwd_sys := (\<lambda>dir. Some 2)\<rparr>"

text \<open>A system that refuses every allocation.\<close>

definition no_memory :: os where
  "no_memory = host\<lparr>malloc_ok := (\<lambda>n. False), strerror := (\<lambda>errno. ''Cannot allocate memory'')\<rparr>"

lemma execute_cd: "noosh_execute sys (''cd'' # rest) w = Some (noosh_cd sys (''cd'' # rest) w)"
  by (simp add: noosh_execute_def arg_def noosh_num_builtins_def builtin_str_def builtin_func_def)

lemma execute_pwd: "noosh_execute sys (''pwd'' # rest) w = Some (noosh_pwd sys (''pwd'' # rest) w)"
  by (simp add: noosh_execute_def arg_def noosh_num_builtins_def builtin_str_def builtin_func_def)

lemma execute_help: "noosh_execute sys (''help'' # rest) w = Some (noosh_help sys (''help'' # rest) w)"
  by (simp add: noosh_execute_def arg_def noosh_num_builtins_def builtin_str_def builtin_func_def)

lemma execute_exit: "noosh_execute sys (''exit'' # rest) w = Some (noosh_exit sys (''exit'' # rest) w)"
  by (simp add: noosh_execute_def arg_def noosh_num_builtins_def builtin_str_def builtin_func_def)

lemma execute_other:
  assumes "args \<noteq> []" and "args ! 0 \<notin> set builtin_str"
  shows "noosh_execute sys args w = noosh_launch sys args w"
  using assms
  by (simp add: noosh_execute_def arg_def noosh_num_builtins_def builtin_str_def builtin_func_def)

lemma loop_stops:
  "loop_body sys u = Some (Returns 0 w) \<Longrightarrow> noosh_loop sys u = Some (Returns () w)"
  by (subst noosh_loop.simps) simp

lemma loop_exits:
  "loop_body sys u = Some (Exits code w) \<Longrightarrow> noosh_loop sys u = Some (Exits code w)"
  by (subst noosh_loop.simps) simp

lemma loop_body_execute:
  assumes "noosh_read_line sys (printf ''> '' u) = Returns line w"
    and "noosh_split_line sys line w = Returns slots w"
  shows "loop_body sys u = noosh_execute sys (argv slots) w"
  using assms by (simp add: loop_body_def)

lemma main_exits:
  "loop_body sys u = Some (Exits code w) \<Longrightarrow> main sys u = Some (code, w)"
  by (simp add: main_def loop_exits)

lemma main_stops:
  "loop_body sys u = Some (Returns 0 w) \<Longrightarrow> main sys u = Some (EXIT_SUCCESS, w)"
  by (simp add: main_def loop_stops)

lemma read_pwd:
  "noosh_read_line no_cwd (printf ''> '' (start ''pwd\<newline>exit\<newline>''))
     = Returns ''pwd'' ((start ''exit\<newline>'')\<lparr>stdout := ''> ''\<rparr>)"
  by (simp add: noosh_read_line_def no_cwd_def host_def start_def printf_def NOOSH_RL_BUFSIZE_def)

lemma no_cwd_grants: "\<forall>n. malloc_ok no_cwd n"
  by (simp add: no_cwd_def host_def)

lemma read_exit:
  "noosh_read_line host (printf ''> '' (start ''exit now\<newline>ls\<newline>''))
     = Returns ''exit now'' ((start ''ls\<newline>'')\<lparr>stdout := ''> ''\<rparr>)"
  by (simp add: noosh_read_line_def host_def start_def printf_def NOOSH_RL_BUFSIZE_def)

text \<open>A system whose \<^verbatim>\<open>fork\<close> fails with \<^verbatim>\<open>EAGAIN\<close>.\<close>

definition no_fork :: os where
  "no_fork = host\<lparr>fork_sys := Some 11, strerror := (\<lambda>errno. ''Resource temporarily unavailable'')\<rparr>"

lemma wait_loop_returns:
  assumes "reports n = Some status" and "WIFEXITED status \<or> WIFSIGNALED status"
    and "\<forall>k. m \<le> k \<and> k < n \<longrightarrow> (\<exists>sig. reports k = Some (WStopped sig))"
    and "m \<le> n"
  shows "wait_loop reports m = Some status"
  using assms(3,4)
proof (induction "n - m" arbitrary: m)
  case 0
  then have "m = n" by simp
  then show ?case
    using assms(1,2) by (subst wait_loop.simps) auto
next
  case (Suc d)
  then have lt: "m < n" by simp
  then obtain sig where "reports m = Some (WStopped sig)"
    using Suc.prems(1) by blast
  then have "wait_loop reports m = wait_loop reports (Suc m)"
    by (subst wait_loop.simps) (simp add: WIFEXITED_def WIFSIGNALED_def)
  also have "\<dots> = Some status"
    using Suc.hyps(2) Suc.prems(1) lt by (intro Suc.hyps(1)) auto
  finally show ?case .
qed

lemma launch_continues:
  "noosh_launch sys args w = Some r \<Longrightarrow> \<exists>w'. r = Returns 1 w'"
  by (auto simp: noosh_launch_def split: option.splits prod.splits)

lemma launch_fork_fails:
  "fork_sys sys = Some errno \<Longrightarrow>
   noosh_launch sys args w = Some (Returns 1 (perror sys ''noosh'' errno w))"
  by (simp add: noosh_launch_def)

lemma launch_exec_fails:
  assumes "fork_sys sys = None" and "execvp_sys sys args = Some errno"
  shows "noosh_launch sys args w
         = Some (Returns 1 (perror sys ''noosh'' errno (w\<lparr>children := children w @ [args]\<rparr>)))"
proof -
  have "wait_loop (\<lambda>k. Some (WExited EXIT_FAILURE)) 0 = Some (WExited EXIT_FAILURE)"
    by (subst wait_loop.simps) (simp add: WIFEXITED_def)
  then show ?thesis
    using assms by (simp add: noosh_launch_def launch_child_def)
qed

lemma launch_program_ends:
  assumes "fork_sys sys = None" and "execvp_sys sys args = None"
    and "waitpid_sys sys args n = Some status" and "WIFEXITED status \<or> WIFSIGNALED status"
    and "\<forall>k<n. \<exists>sig. waitpid_sys sys args k = Some (WStopped sig)"
  shows "\<exists>w'. noosh_launch sys args w = Some (Returns 1 w') \<and>
              children w' = children w @ [args] \<and> cwd w' = cwd w"
proof -
  have "wait_loop (waitpid_sys sys args) 0 = Some status"
    using assms(3,4,5) by (intro wait_loop_returns[where n = n]) auto
  then show ?thesis
    using assms(1,2) by (auto simp: noosh_launch_def launch_child_def split: prod.splits)
qed

text \<open>A pass of the loop over a blank line, and over an input that is at its end.\<close>

lemma blank_pass:
  assumes "set line \<subseteq> delimiters"
    and "malloc_ok sys (NOOSH_TOK_BUFSIZE * sizeof_ptr sys)"
    and "noosh_read_line sys (printf ''> '' u) = Returns line w"
  shows "loop_body sys u = Some (Returns 1 w)"
proof -
  have "tokenize line = []"
    using assms(1) by (rule tokenize_delims_only)
  then have "noosh_split_line sys line w
             = Returns (Null # replicate (capacity 0 - Suc 0) Uninit) w"
    using assms(2) by (simp add: noosh_split_line_spec grow_ok_def)
  then show ?thesis
    using assms(3) by (simp add: loop_body_def exec_empty)
qed

lemma eof_pass:
  assumes "malloc_ok sys NOOSH_RL_BUFSIZE" and "malloc_ok sys (NOOSH_TOK_BUFSIZE * sizeof_ptr sys)"
    and "stdin w = []"
  shows "loop_body sys w = Some (Returns 1 (printf ''> '' w))"
proof -
  let ?w = "printf ''> '' w"
  have w: "?w\<lparr>stdin := []\<rparr> = ?w"
    using assms(3) by (simp add: printf_def)
  have "noosh_read_line sys ?w = Returns [] ?w"
    using assms(1,3) w by (simp add: noosh_read_line_def printf_def)
  then show ?thesis
    using assms(2) by (intro blank_pass[where line = "[]"]) simp_all
qed

lemma loop_never_ends_at_eof:
  assumes "noosh_loop sys w = Some r"
  shows "malloc_ok sys NOOSH_RL_BUFSIZE \<and> malloc_ok sys (NOOSH_TOK_BUFSIZE * sizeof_ptr sys)
         \<longrightarrow> stdin w \<noteq> []"
proof (rule noosh_loop.raw_induct[where P = "\<lambda>sys w r.
          malloc_ok sys NOOSH_RL_BUFSIZE \<and> malloc_ok sys (NOOSH_TOK_BUFSIZE * sizeof_ptr sys)
          \<longrightarrow> stdin w \<noteq> []", OF _ assms])
  fix loop :: "os \<Rightarrow> world \<Rightarrow> unit outcome option" and sys w r
  assume IH: "\<And>sys w r. loop sys w = Some r \<Longrightarrow>
          malloc_ok sys NOOSH_RL_BUFSIZE \<and> malloc_ok sys (NOOSH_TOK_BUFSIZE * sizeof_ptr sys)
          \<longrightarrow> stdin w \<noteq> []"
    and step: "(case loop_body sys w of
        None \<Rightarrow> None
      | Some (Returns status w1) \<Rightarrow>
          if status \<noteq> 0 then loop sys w1 else Some (Returns () w1)
      | Some (Exits code w1) \<Rightarrow> Some (Exits code w1)) = Some r"
  show "malloc_ok sys NOOSH_RL_BUFSIZE \<and> malloc_ok sys (NOOSH_TOK_BUFSIZE * sizeof_ptr sys)
          \<longrightarrow> stdin w \<noteq> []"
  proof (intro impI notI)
    assume m: "malloc_ok sys NOOSH_RL_BUFSIZE \<and> malloc_ok sys (NOOSH_TOK_BUFSIZE * sizeof_ptr sys)"
      and e: "stdin w = []"
    then have "loop_body sys w = Some (Returns 1 (printf ''> '' w))"
      by (simp add: eof_pass)
    then have "loop sys (printf ''> '' w) = Some r"
      using step by simp
    then have "stdin (printf ''> '' w) \<noteq> []"
      using IH m by blast
    then show False
      using e by (simp add: printf_def)
  qed
qed

section \<open>The tokenizer splits on the delimiter set\<close>

text \<open>
  Claim C7. For every input line the tokenizer splits exactly on the delimiter set
  (space, tab, carriage return, newline, bell), and consecutive delimiters never produce
  empty tokens: the token sequence is precisely the maximal runs of non-delimiter
  characters of the line, in order.

  The line is the C string \<^verbatim>\<open>noosh_split_line\<close> is given, \<open>c_str line\<close>. Whenever the
  tokenizer returns, the argument vector it returns is \<open>maximal_runs\<close> of that string,
  and it does return when no allocation is refused.
\<close>

theorem tokens_are_maximal_runs:
  "set NOOSH_TOK_DELIM = delimiters \<and>
   (\<forall>args w'. noosh_split_line sys line w = Returns args w' \<longrightarrow>
       argv args = maximal_runs (c_str line)) \<and>
   ((\<forall>n. malloc_ok sys n) \<longrightarrow> (\<exists>args. noosh_split_line sys line w = Returns args w))"
  by (auto simp: delimiters_eq split_line_total argv_tokens tokenize_maximal_runs
      dest!: split_line_ReturnsD(1))

theorem tokens_are_maximal_runs_witness:
  "\<exists>args. noosh_split_line host (''  ls'' @ [CHR 0x09] @ ''-la    /tmp '') (start [])
             = Returns args (start [])
      \<and> argv args = [''ls'', ''-la'', ''/tmp'']"
proof -
  have "\<forall>n. malloc_ok host n"
    by (simp add: host_def)
  moreover have "maximal_runs (c_str (''  ls'' @ [CHR 0x09] @ ''-la    /tmp ''))
                 = [''ls'', ''-la'', ''/tmp'']"
    by code_simp
  ultimately show ?thesis
    using tokens_are_maximal_runs [of host "''  ls'' @ [CHR 0x09] @ ''-la    /tmp ''" "start []"]
    by auto
qed

section \<open>Idempotence of tokenization\<close>

text \<open>
  Claim C9. Tokenization is idempotent under re-splitting: for every input line, joining
  the produced token sequence with single spaces and tokenizing the joined string again
  yields exactly the same token sequence.

  Whenever both calls return, the second argument vector equals the first; and both
  return when no allocation is refused.
\<close>

theorem tokenizer_idempotent:
  "(\<forall>args w1 args' w2.
      noosh_split_line sys line w = Returns args w1 \<longrightarrow>
      noosh_split_line sys (join_spaces (argv args)) w = Returns args' w2 \<longrightarrow>
      argv args' = argv args) \<and>
   ((\<forall>n. malloc_ok sys n) \<longrightarrow>
      (\<exists>args args'. noosh_split_line sys line w = Returns args w \<and>
         noosh_split_line sys (join_spaces (argv args)) w = Returns args' w \<and>
         argv args' = argv args))"
proof (intro conjI allI impI)
  fix args w1 args' w2
  assume "noosh_split_line sys line w = Returns args w1"
    and "noosh_split_line sys (join_spaces (argv args)) w = Returns args' w2"
  then show "argv args' = argv args"
    by (simp add: split_line_shape(1) tokenize_idem)
next
  assume g: "\<forall>n. malloc_ok sys n"
  let ?args = "map Tok (tokenize line) @
        Null # replicate (capacity (length (tokenize line)) - Suc (length (tokenize line))) Uninit"
  have 1: "noosh_split_line sys line w = Returns ?args w"
    using g by (rule split_line_total)
  have 2: "argv ?args = tokenize line"
    by (rule argv_tokens)
  have 3: "noosh_split_line sys (join_spaces (tokenize line)) w = Returns ?args w"
    using split_line_total[OF g, of "join_spaces (tokenize line)" w] by (simp add: tokenize_idem)
  show "\<exists>args args'. noosh_split_line sys line w = Returns args w \<and>
         noosh_split_line sys (join_spaces (argv args)) w = Returns args' w \<and>
         argv args' = argv args"
    using 1 2 3 by metis
qed

theorem tokenizer_idempotent_witness:
  "\<exists>args args'. noosh_split_line host (''  ls'' @ [CHR 0x09, CHR 0x07] @ ''-l '') (start []) = Returns args (start []) \<and>
      argv args = [''ls'', ''-l''] \<and> join_spaces (argv args) = ''ls -l'' \<and>
      noosh_split_line host ''ls -l'' (start []) = Returns args' (start []) \<and>
      argv args' = [''ls'', ''-l'']"
proof -
  let ?line = "''  ls'' @ [CHR 0x09, CHR 0x07] @ ''-l ''"
  obtain args args' where r: "noosh_split_line host ?line (start []) = Returns args (start [])"
    and r': "noosh_split_line host (join_spaces (argv args)) (start []) = Returns args' (start [])"
    and eq: "argv args' = argv args"
    using tokenizer_idempotent [of host ?line "start []"] host_grants by blast
  have "tokenize ?line = [''ls'', ''-l'']"
    by (simp add: tokenize_maximal_runs) code_simp
  then have a: "argv args = [''ls'', ''-l'']"
    using split_line_shape(1)[OF r] by simp
  have j: "join_spaces [''ls'', ''-l''] = ''ls -l''"
    by (simp add: join_spaces_def)
  show ?thesis
    using r r' eq a j by auto
qed

section \<open>Shape of the token array\<close>

text \<open>
  Claim C10. For every input line, every token in the sequence produced by the tokenizer
  is a non-empty string containing no character of the delimiter set, and the sequence
  is terminated by exactly one null sentinel placed at the index equal to the number of
  tokens.

  In the array returned, the slots below the number of tokens hold the tokens, the slot
  at that index holds NULL, and no other slot of the array does (those behind it were
  never written).
\<close>

theorem tokens_well_formed:
  "(\<forall>args w'. noosh_split_line sys line w = Returns args w' \<longrightarrow>
      (\<forall>t\<in>set (argv args). t \<noteq> [] \<and> set t \<inter> delimiters = {}) \<and>
      length (argv args) < length args \<and>
      (\<forall>i<length (argv args). args ! i = Tok (argv args ! i)) \<and>
      args ! length (argv args) = Null \<and>
      (\<forall>i<length args. args ! i = Null \<longrightarrow> i = length (argv args))) \<and>
   ((\<forall>n. malloc_ok sys n) \<longrightarrow> (\<exists>args. noosh_split_line sys line w = Returns args w))"
proof -
  have "(\<forall>t\<in>set (argv args). t \<noteq> [] \<and> set t \<inter> delimiters = {}) \<and>
      length (argv args) < length args \<and>
      (\<forall>i<length (argv args). args ! i = Tok (argv args ! i)) \<and>
      args ! length (argv args) = Null \<and>
      (\<forall>i<length args. args ! i = Null \<longrightarrow> i = length (argv args))"
    if r: "noosh_split_line sys line w = Returns args w'" for args w'
  proof -
    note shape = split_line_shape[OF r]
    have "\<forall>t\<in>set (argv args). t \<noteq> [] \<and> set t \<inter> delimiters = {}"
      using tokenize_good unfolding shape(1) good_token_def by blast
    moreover have "length (argv args) < length args"
      unfolding shape(1,2) by (rule capacity_gt)
    ultimately show ?thesis
      using shape(3,4,5) unfolding shape(1) by blast
  qed
  moreover have "\<exists>args. noosh_split_line sys line w = Returns args w"
    if "\<forall>n. malloc_ok sys n"
    using that by (simp add: split_line_total)
  ultimately show ?thesis
    by blast
qed

theorem tokens_well_formed_witness:
  "\<exists>args. noosh_split_line host ''cd  /tmp'' (start []) = Returns args (start []) \<and>
      argv args = [''cd'', ''/tmp''] \<and> 2 < length args \<and>
      args ! 0 = Tok ''cd'' \<and> args ! 1 = Tok ''/tmp'' \<and> args ! 2 = Null"
proof -
  obtain args where r: "noosh_split_line host ''cd  /tmp'' (start []) = Returns args (start [])"
    using tokens_well_formed [of host "''cd  /tmp''" "start []"] host_grants by blast
  have "tokenize ''cd  /tmp'' = [''cd'', ''/tmp'']"
    by (simp add: tokenize_maximal_runs) code_simp
  then have a: "argv args = [''cd'', ''/tmp'']"
    using split_line_shape(1)[OF r] by simp
  show ?thesis
    using tokens_well_formed [of host "''cd  /tmp''" "start []"] r a
    by (auto simp: numeral_2_eq_2)
qed

section \<open>Blank lines\<close>

text \<open>
  Claim C6. For every input line consisting solely of delimiter characters (or of zero
  length), the tokenizer yields zero tokens (a sequence whose first slot is the
  terminator sentinel), and dispatching that empty token sequence performs no builtin
  call and no launch, with outcome "continue".

  Dispatching leaves the world as it was: nothing is written, the working directory and
  the list of children are unchanged. The tokenizer returns once its first allocation is
  granted, and then the pass of the loop that read such a line yields status 1.
\<close>

theorem blank_line_is_no_op:
  assumes "set line \<subseteq> delimiters"
  shows "(\<forall>args w'. noosh_split_line sys line w = Returns args w' \<longrightarrow>
            args ! 0 = Null \<and> argv args = [] \<and>
            noosh_execute sys (argv args) w' = Some (Returns 1 w)) \<and>
         (malloc_ok sys (NOOSH_TOK_BUFSIZE * sizeof_ptr sys) \<longrightarrow>
            (\<exists>args. noosh_split_line sys line w = Returns args w)) \<and>
         (malloc_ok sys (NOOSH_TOK_BUFSIZE * sizeof_ptr sys) \<and>
          noosh_read_line sys (printf ''> '' u) = Returns line w \<longrightarrow>
            loop_body sys u = Some (Returns 1 w))"
proof -
  have t: "tokenize line = []"
    using assms by (rule tokenize_delims_only)
  have 1: "args ! 0 = Null \<and> argv args = [] \<and>
           noosh_execute sys (argv args) w' = Some (Returns 1 w)"
    if r: "noosh_split_line sys line w = Returns args w'" for args w'
    using split_line_shape(1,4)[OF r] split_line_ReturnsD(2)[OF r]
    by (simp add: t exec_empty)
  have 2: "\<exists>args. noosh_split_line sys line w = Returns args w"
    if "malloc_ok sys (NOOSH_TOK_BUFSIZE * sizeof_ptr sys)"
    using that by (simp add: noosh_split_line_spec t grow_ok_def)
  have 3: "loop_body sys u = Some (Returns 1 w)"
    if mm: "malloc_ok sys (NOOSH_TOK_BUFSIZE * sizeof_ptr sys)"
      and rd: "noosh_read_line sys (printf ''> '' u) = Returns line w"
  proof -
    obtain args where r: "noosh_split_line sys line w = Returns args w"
      using 2[OF mm] by blast
    show ?thesis
      using 1[OF r] r rd by (auto simp: loop_body_def)
  qed
  show ?thesis
    using 1 2 3 by blast
qed

theorem blank_line_is_no_op_witness:
  "(\<exists>args. noosh_split_line host ('' '' @ [CHR 0x09]) (start []) = Returns args (start []) \<and>
       args ! 0 = Null \<and> noosh_execute host (argv args) (start []) = Some (Returns 1 (start []))) \<and>
   loop_body host (start ('' '' @ [CHR 0x09, CHR 0x0A] @ ''ls''))
     = Some (Returns 1 ((start ''ls'')\<lparr>stdout := ''> ''\<rparr>))"
proof -
  have d: "set ('' '' @ [CHR 0x09]) \<subseteq> delimiters"
    by (simp add: delimiters_def)
  have m: "malloc_ok host (NOOSH_TOK_BUFSIZE * sizeof_ptr host)"
    by (simp add: host_def)
  note a = blank_line_is_no_op [OF d, of host "start []" "start []"]
  obtain args where r: "noosh_split_line host ('' '' @ [CHR 0x09]) (start []) = Returns args (start [])"
    using a m by blast
  have "args ! 0 = Null \<and> noosh_execute host (argv args) (start []) = Some (Returns 1 (start []))"
    using a r by blast
  moreover have "loop_body host (start ('' '' @ [CHR 0x09, CHR 0x0A] @ ''ls''))
     = Some (Returns 1 ((start ''ls'')\<lparr>stdout := ''> ''\<rparr>))"
    using blank_line_is_no_op [OF d, of host "(start ''ls'')\<lparr>stdout := ''> ''\<rparr>"
        "start ('' '' @ [CHR 0x09, CHR 0x0A] @ ''ls'')"] m read_blank
    by blast
  ultimately show ?thesis
    using r by blast
qed

section \<open>Growth of the token array\<close>

text \<open>
  Claim C8, as stated: the capacity starts at 64 slots and grows geometrically, by +64
  slots on each overflow. The sizes 64, 128 and 192 the array takes for lines of 1, 64
  and 128 tokens are not a geometric progression.
\<close>

theorem capacity_growth_not_geometric:
  "slots_of (noosh_split_line host (words 1) (start [])) = 64 \<and>
   slots_of (noosh_split_line host (words 64) (start [])) = 128 \<and>
   slots_of (noosh_split_line host (words 128) (start [])) = 192 \<and>
   \<not> geometric [slots_of (noosh_split_line host (words 1) (start [])),
                slots_of (noosh_split_line host (words 64) (start [])),
                slots_of (noosh_split_line host (words 128) (start []))]"
  by (simp add: slots_of_split host_grants tokenize_words capacity_def NOOSH_TOK_BUFSIZE_def)

text \<open>
  Claim C8, amended. The capacity starts at 64 slots and grows arithmetically, by exactly
  64 slots each time the array is full: with \<open>n\<close> tokens the array returned has
  \<open>64 * (n div 64 + 1)\<close> slots, so it was grown \<open>n div 64\<close> times. The requests made
  are those for \<open>64 * (k + 1)\<close> pointers, \<open>k \<le> n div 64\<close>: if all are granted the
  tokenizer returns, and if one is refused the process ends with \<^verbatim>\<open>EXIT_FAILURE\<close>
  after writing \<^verbatim>\<open>noosh: allocation error\<close> to the error stream.
\<close>

theorem capacity_grows_by_64:
  "NOOSH_TOK_BUFSIZE = 64 \<and>
   (\<forall>args w'. noosh_split_line sys line w = Returns args w' \<longrightarrow>
      length args = 64 * (length (argv args) div 64 + 1)) \<and>
   ((\<forall>k. k \<le> length (tokenize line) div 64 \<longrightarrow> malloc_ok sys (64 * (k + 1) * sizeof_ptr sys))
      \<longrightarrow> (\<exists>args. noosh_split_line sys line w = Returns args w)) \<and>
   ((\<exists>k. k \<le> length (tokenize line) div 64 \<and> \<not> malloc_ok sys (64 * (k + 1) * sizeof_ptr sys))
      \<longrightarrow> noosh_split_line sys line w
           = Exits EXIT_FAILURE (w\<lparr>stderr := stderr w @ ''noosh: allocation error\<newline>''\<rparr>))"
proof -
  have g: "grow_ok sys k = malloc_ok sys (64 * (k + 1) * sizeof_ptr sys)" for k
    by (simp add: grow_ok_def NOOSH_TOK_BUFSIZE_def)
  have "length args = 64 * (length (argv args) div 64 + 1)"
    if r: "noosh_split_line sys line w = Returns args w'" for args w'
    using split_line_shape(1,2)[OF r] by (simp add: capacity_def NOOSH_TOK_BUFSIZE_def)
  moreover have "\<exists>args. noosh_split_line sys line w = Returns args w"
    if "\<forall>k. k \<le> length (tokenize line) div 64 \<longrightarrow> malloc_ok sys (64 * (k + 1) * sizeof_ptr sys)"
    using that unfolding noosh_split_line_spec g[symmetric] by (simp add: NOOSH_TOK_BUFSIZE_def)
  moreover have "noosh_split_line sys line w
           = Exits EXIT_FAILURE (w\<lparr>stderr := stderr w @ ''noosh: allocation error\<newline>''\<rparr>)"
    if "\<exists>k. k \<le> length (tokenize line) div 64 \<and> \<not> malloc_ok sys (64 * (k + 1) * sizeof_ptr sys)"
    using that unfolding noosh_split_line_spec g[symmetric]
    by (auto simp: NOOSH_TOK_BUFSIZE_def alloc_error_def fprintf_stderr_def)
  ultimately show ?thesis
    by (simp add: NOOSH_TOK_BUFSIZE_def)
qed

theorem capacity_grows_by_64_witness:
  "(\<exists>args. noosh_split_line small_heap (words 64) (start []) = Returns args (start []) \<and>
       length args = 128) \<and>
   noosh_split_line small_heap (words 128) (start [])
     = Exits EXIT_FAILURE ((start [])\<lparr>stderr := ''noosh: allocation error\<newline>''\<rparr>)"
proof -
  have t: "length (tokenize (words n)) = n" for n
    by (simp add: tokenize_words)
  have ok: "\<forall>k. k \<le> length (tokenize (words 64)) div 64 \<longrightarrow>
              malloc_ok small_heap (64 * (k + 1) * sizeof_ptr small_heap)"
    by (auto simp: t small_heap_def host_def)
  have no: "\<exists>k. k \<le> length (tokenize (words 128)) div 64 \<and>
              \<not> malloc_ok small_heap (64 * (k + 1) * sizeof_ptr small_heap)"
    by (rule exI[of _ 2]) (simp add: t small_heap_def host_def)
  obtain args where r: "noosh_split_line small_heap (words 64) (start []) = Returns args (start [])"
    using capacity_grows_by_64 [of small_heap "words 64" "start []"] ok by blast
  have "length args = 128"
    using capacity_grows_by_64 [of small_heap "words 64" "start []"] r
      split_line_shape(1)[OF r] by (simp add: t)
  moreover have "noosh_split_line small_heap (words 128) (start [])
     = Exits EXIT_FAILURE ((start [])\<lparr>stderr := ''noosh: allocation error\<newline>''\<rparr>)"
    using capacity_grows_by_64 [of small_heap "words 128" "start []"] no
    by (simp add: start_def)
  ultimately show ?thesis
    using r by blast
qed

section \<open>What the builtins return\<close>

text \<open>
  Claim C3, as stated: a token sequence whose first token is \<^verbatim>\<open>exit\<close> makes the handler
  return "terminate" and stops the loop; one whose first token is \<^verbatim>\<open>cd\<close>, \<^verbatim>\<open>pwd\<close> or
  \<^verbatim>\<open>help\<close> makes the handler return "continue". Where \<^verbatim>\<open>getcwd\<close> fails, the handler of
  \<^verbatim>\<open>pwd\<close> does not return: it ends the process with \<^verbatim>\<open>EXIT_FAILURE\<close>.
\<close>

theorem pwd_handler_does_not_return:
  "noosh_execute no_cwd [''pwd''] (start [])
     = Some (Exits EXIT_FAILURE ((start [])\<lparr>stderr := ''noosh: No such file or directory\<newline>''\<rparr>))"
  by (simp add: execute_pwd noosh_pwd_def no_cwd_def host_def getcwd_def start_def PATH_MAX_def
      perror_def fprintf_stderr_def)

text \<open>
  Claim C3, amended. For every token sequence whose first token is \<^verbatim>\<open>exit\<close> (with any
  further arguments) the handler returns 0 ("terminate") without any effect, and the
  pass of the loop that read it is the last: \<^verbatim>\<open>main\<close> returns \<^verbatim>\<open>EXIT_SUCCESS\<close>. For
  \<^verbatim>\<open>cd\<close> and \<^verbatim>\<open>help\<close> the handler returns 1 ("continue") in every case. For \<^verbatim>\<open>pwd\<close> it
  returns 1, having printed the working directory, when its buffer is allocated and the
  working directory resolves. When the buffer is not allocated, or when the working
  directory does not resolve, the handler does not return: the process ends with
  \<^verbatim>\<open>EXIT_FAILURE\<close>, which is not 0, after \<^verbatim>\<open>perror\<close> wrote its line to the error stream.
  So in every case \<^verbatim>\<open>pwd\<close> either returns 1 or ends the process with \<^verbatim>\<open>EXIT_FAILURE\<close>,
  and no builtin but \<^verbatim>\<open>exit\<close> returns "terminate".
\<close>

theorem exit_terminates_others_continue:
  "noosh_execute sys (''exit'' # rest) w = Some (Returns 0 w) \<and>
   (noosh_read_line sys (printf ''> '' u) = Returns line w \<and>
    noosh_split_line sys line w = Returns slots w \<and> argv slots = ''exit'' # rest \<longrightarrow>
      noosh_loop sys u = Some (Returns () w) \<and> main sys u = Some (EXIT_SUCCESS, w)) \<and>
   (\<exists>w'. noosh_execute sys (''cd'' # rest) w = Some (Returns 1 w')) \<and>
   (\<exists>w'. noosh_execute sys (''help'' # rest) w = Some (Returns 1 w')) \<and>
   (malloc_ok sys PATH_MAX \<and> getcwd sys PATH_MAX w = Inr dir \<longrightarrow>
      (\<exists>w'. noosh_execute sys (''pwd'' # rest) w = Some (Returns 1 w'))) \<and>
   ((\<exists>w'. noosh_execute sys (''pwd'' # rest) w = Some (Returns 1 w')) \<or>
    (\<exists>w'. noosh_execute sys (''pwd'' # rest) w = Some (Exits EXIT_FAILURE w'))) \<and>
   EXIT_FAILURE \<noteq> 0 \<and>
   (malloc_ok sys PATH_MAX \<and> getcwd sys PATH_MAX w = Inr dir \<longrightarrow>
      noosh_execute sys (''pwd'' # rest) w
        = Some (Returns 1 (w\<lparr>stdout := stdout w @ dir @ ''\<newline>''\<rparr>))) \<and>
   (malloc_ok sys PATH_MAX \<and> getcwd sys PATH_MAX w = Inl errno \<longrightarrow>
      noosh_execute sys (''pwd'' # rest) w
        = Some (Exits EXIT_FAILURE
                 (w\<lparr>stderr := stderr w @ ''noosh: '' @ strerror sys errno @ ''\<newline>''\<rparr>))) \<and>
   (\<not> malloc_ok sys PATH_MAX \<longrightarrow>
      noosh_execute sys (''pwd'' # rest) w
        = Some (Exits EXIT_FAILURE
                 (w\<lparr>stderr := stderr w @ ''noosh: allocation error\<newline>: ''
                                 @ strerror sys ENOMEM @ ''\<newline>''\<rparr>))) \<and>
   (\<forall>w'. noosh_execute sys (''cd'' # rest) w \<noteq> Some (Returns 0 w') \<and>
         noosh_execute sys (''help'' # rest) w \<noteq> Some (Returns 0 w') \<and>
         noosh_execute sys (''pwd'' # rest) w \<noteq> Some (Returns 0 w'))"
proof -
  have "noosh_execute sys (''exit'' # rest) w = Some (Returns 0 w)"
    by (simp add: execute_exit noosh_exit_def)
  moreover have "noosh_loop sys u = Some (Returns () w) \<and> main sys u = Some (EXIT_SUCCESS, w)"
    if "noosh_read_line sys (printf ''> '' u) = Returns line w"
      and "noosh_split_line sys line w = Returns slots w" and "argv slots = ''exit'' # rest"
  proof -
    have "loop_body sys u = Some (Returns 0 w)"
      using that by (simp add: loop_body_execute execute_exit noosh_exit_def)
    then show ?thesis
      by (simp add: loop_stops main_stops)
  qed
  moreover have r_cd: "\<exists>w'. noosh_execute sys (''cd'' # rest) w = Some (Returns 1 w')"
    by (simp add: execute_cd noosh_cd_def split: option.split sum.split)
  moreover have r_help: "\<exists>w'. noosh_execute sys (''help'' # rest) w = Some (Returns 1 w')"
    by (simp add: execute_help noosh_help_def Let_def)
  moreover have r_ok: "noosh_execute sys (''pwd'' # rest) w
        = Some (Returns 1 (w\<lparr>stdout := stdout w @ dir @ ''\<newline>''\<rparr>))"
    if "malloc_ok sys PATH_MAX" and "getcwd sys PATH_MAX w = Inr dir"
    using that by (simp add: execute_pwd noosh_pwd_def printf_def)
  moreover have r_pwd: "(\<exists>w'. noosh_execute sys (''pwd'' # rest) w = Some (Returns 1 w')) \<or>
    (\<exists>w'. noosh_execute sys (''pwd'' # rest) w = Some (Exits EXIT_FAILURE w'))"
    by (simp add: execute_pwd noosh_pwd_def split: sum.split)
  moreover have "EXIT_FAILURE \<noteq> 0"
    by (simp add: EXIT_FAILURE_def)
  moreover have "noosh_execute sys (''pwd'' # rest) w
        = Some (Exits EXIT_FAILURE
                 (w\<lparr>stderr := stderr w @ ''noosh: '' @ strerror sys errno @ ''\<newline>''\<rparr>))"
    if "malloc_ok sys PATH_MAX" and "getcwd sys PATH_MAX w = Inl errno"
    using that by (simp add: execute_pwd noosh_pwd_def perror_def fprintf_stderr_def)
  moreover have "noosh_execute sys (''pwd'' # rest) w
        = Some (Exits EXIT_FAILURE
                 (w\<lparr>stderr := stderr w @ ''noosh: allocation error\<newline>: ''
                                 @ strerror sys ENOMEM @ ''\<newline>''\<rparr>))"
    if "\<not> malloc_ok sys PATH_MAX"
    using that by (simp add: execute_pwd noosh_pwd_def perror_def fprintf_stderr_def)
  moreover have "noosh_execute sys (''cd'' # rest) w \<noteq> Some (Returns 0 w') \<and>
         noosh_execute sys (''help'' # rest) w \<noteq> Some (Returns 0 w') \<and>
         noosh_execute sys (''pwd'' # rest) w \<noteq> Some (Returns 0 w')" for w'
    using r_cd r_help r_pwd by auto
  ultimately show ?thesis
    by blast
qed

theorem exit_terminates_others_continue_witness:
  "noosh_execute host [''exit'', ''now''] (start []) = Some (Returns 0 (start [])) \<and>
   main host (start ''exit now\<newline>ls\<newline>'')
     = Some (EXIT_SUCCESS, (start ''ls\<newline>'')\<lparr>stdout := ''> ''\<rparr>) \<and>
   noosh_execute host [''pwd''] (start [])
     = Some (Returns 1 ((start [])\<lparr>stdout := ''/home\<newline>''\<rparr>)) \<and>
   noosh_execute no_cwd [''pwd'', ''-P''] (start [])
     = Some (Exits EXIT_FAILURE
              ((start [])\<lparr>stderr := ''noosh: No such file or directory\<newline>''\<rparr>)) \<and>
   noosh_execute no_memory [''pwd''] (start [])
     = Some (Exits EXIT_FAILURE
              ((start [])\<lparr>stderr := ''noosh: allocation error\<newline>: Cannot allocate memory\<newline>''\<rparr>))"
proof -
  let ?w = "(start ''ls\<newline>'')\<lparr>stdout := ''> ''\<rparr>"
  obtain slots where 1: "noosh_split_line host ''exit now'' ?w = Returns slots ?w"
    using split_line_total[OF host_grants] by blast
  have "tokenize ''exit now'' = [''exit'', ''now'']"
    by (simp add: tokenize_maximal_runs) code_simp
  then have 2: "argv slots = ''exit'' # [''now'']"
    using split_line_shape(1)[OF 1] by simp
  have 3: "malloc_ok host PATH_MAX" "getcwd host PATH_MAX (start []) = Inr ''/home''"
    by (simp_all add: host_def getcwd_def start_def PATH_MAX_def)
  have 4: "malloc_ok no_cwd PATH_MAX" "getcwd no_cwd PATH_MAX (start []) = Inl 2"
    "strerror no_cwd 2 = ''No such file or directory''"
    by (simp_all add: no_cwd_def host_def getcwd_def start_def PATH_MAX_def)
  have 5: "\<not> malloc_ok no_memory PATH_MAX"
    "strerror no_memory ENOMEM = ''Cannot allocate memory''"
    by (simp_all add: no_memory_def host_def)
  have 6: "stdout (start []) = []" "stderr (start []) = []"
    by (simp_all add: start_def)
  have a: "noosh_execute host [''exit'', ''now''] (start []) = Some (Returns 0 (start []))"
    using exit_terminates_others_continue [where sys = host and rest = "[''now'']"
        and w = "start []"] by blast
  have b: "main host (start ''exit now\<newline>ls\<newline>'') = Some (EXIT_SUCCESS, ?w)"
    using exit_terminates_others_continue [where sys = host and rest = "[''now'']" and w = ?w
        and u = "start ''exit now\<newline>ls\<newline>''" and line = "''exit now''" and slots = slots]
      1 2 read_exit by blast
  have c: "noosh_execute host [''pwd''] (start [])
     = Some (Returns 1 ((start [])\<lparr>stdout := stdout (start []) @ ''/home'' @ ''\<newline>''\<rparr>))"
    using exit_terminates_others_continue [where sys = host and rest = "[]" and w = "start []"
        and dir = "''/home''"] 3 by blast
  have d: "noosh_execute no_cwd [''pwd'', ''-P''] (start [])
     = Some (Exits EXIT_FAILURE ((start [])\<lparr>stderr := stderr (start []) @ ''noosh: ''
                @ strerror no_cwd 2 @ ''\<newline>''\<rparr>))"
    using exit_terminates_others_continue [where sys = no_cwd and rest = "[''-P'']"
        and w = "start []" and errno = 2] 4 by blast
  have e: "noosh_execute no_memory [''pwd''] (start [])
     = Some (Exits EXIT_FAILURE ((start [])\<lparr>stderr := stderr (start [])
                @ ''noosh: allocation error\<newline>: '' @ strerror no_memory ENOMEM @ ''\<newline>''\<rparr>))"
    using exit_terminates_others_continue [where sys = no_memory and rest = "[]"
        and w = "start []"] 5 by blast
  show ?thesis
    unfolding a b c d e 4 5 6 by simp
qed

text \<open>
  Claim C4. The \<^verbatim>\<open>pwd\<close> builtin, when the working directory resolves successfully,
  prints the absolute current working directory to standard output and returns
  "continue"; when resolution fails, it reports the error and terminates the entire shell
  process with a non-zero exit code.

  Both versions are covered: \<open>noosh_pwd\<close> of \<^verbatim>\<open>src/main.c\<close> and the one of
  \<^verbatim>\<open>src/noosh.c\<close>, which goes through \<^verbatim>\<open>get_cwd\<close>. What is printed is the directory
  \<^verbatim>\<open>getcwd\<close> stored, the working directory of the process, followed by a newline. On
  failure the message of \<^verbatim>\<open>errno\<close> goes to the error stream and \<^verbatim>\<open>main\<close> ends with
  \<^verbatim>\<open>EXIT_FAILURE\<close>, without reading the rest of the input.
\<close>

theorem pwd_prints_or_is_fatal:
  "EXIT_FAILURE \<noteq> 0 \<and>
   (malloc_ok sys PATH_MAX \<and> getcwd sys PATH_MAX w = Inr dir \<longrightarrow>
      dir = cwd w \<and>
      noosh_pwd sys args w = Returns 1 (w\<lparr>stdout := stdout w @ cwd w @ ''\<newline>''\<rparr>) \<and>
      noosh_pwd_get_cwd sys args w = Returns 1 (w\<lparr>stdout := stdout w @ cwd w @ ''\<newline>''\<rparr>)) \<and>
   (malloc_ok sys PATH_MAX \<and> getcwd sys PATH_MAX w = Inl errno \<longrightarrow>
      noosh_pwd sys args w
        = Exits EXIT_FAILURE (w\<lparr>stderr := stderr w @ ''noosh: '' @ strerror sys errno @ ''\<newline>''\<rparr>) \<and>
      noosh_pwd_get_cwd sys args w
        = Exits EXIT_FAILURE (w\<lparr>stderr := stderr w @ ''noosh: '' @ strerror sys errno @ ''\<newline>''\<rparr>)) \<and>
   (noosh_read_line sys (printf ''> '' u) = Returns line w \<and>
    noosh_split_line sys line w = Returns slots w \<and> argv slots = ''pwd'' # rest \<and>
    malloc_ok sys PATH_MAX \<and> getcwd sys PATH_MAX w = Inl errno \<longrightarrow>
      main sys u
        = Some (EXIT_FAILURE, w\<lparr>stderr := stderr w @ ''noosh: '' @ strerror sys errno @ ''\<newline>''\<rparr>))"
proof -
  have "main sys u
        = Some (EXIT_FAILURE, w\<lparr>stderr := stderr w @ ''noosh: '' @ strerror sys errno @ ''\<newline>''\<rparr>)"
    if "noosh_read_line sys (printf ''> '' u) = Returns line w"
      and "noosh_split_line sys line w = Returns slots w" and "argv slots = ''pwd'' # rest"
      and "malloc_ok sys PATH_MAX" and "getcwd sys PATH_MAX w = Inl errno"
    using that
    by (intro main_exits)
       (simp add: loop_body_execute execute_pwd noosh_pwd_def perror_def fprintf_stderr_def)
  moreover have "dir = cwd w" if "getcwd sys PATH_MAX w = Inr dir"
    using that by (auto simp: getcwd_def split: if_splits option.splits)
  ultimately show ?thesis
    by (auto simp: EXIT_FAILURE_def noosh_pwd_def noosh_pwd_get_cwd_def get_cwd_def
        printf_def perror_def fprintf_stderr_def)
qed

theorem pwd_prints_or_is_fatal_witness:
  "noosh_pwd host [''pwd''] (start []) = Returns 1 ((start [])\<lparr>stdout := ''/home\<newline>''\<rparr>) \<and>
   noosh_pwd no_cwd [''pwd''] (start [])
     = Exits EXIT_FAILURE ((start [])\<lparr>stderr := ''noosh: No such file or directory\<newline>''\<rparr>) \<and>
   main no_cwd (start ''pwd\<newline>exit\<newline>'')
     = Some (EXIT_FAILURE, (start ''exit\<newline>'')\<lparr>stdout := ''> '',
               stderr := ''noosh: No such file or directory\<newline>''\<rparr>)"
proof -
  let ?w = "(start ''exit\<newline>'')\<lparr>stdout := ''> ''\<rparr>"
  have 1: "malloc_ok host PATH_MAX" "getcwd host PATH_MAX (start []) = Inr ''/home''"
    by (simp_all add: host_def getcwd_def start_def PATH_MAX_def)
  have 2: "malloc_ok no_cwd PATH_MAX" "getcwd no_cwd PATH_MAX (start []) = Inl 2"
    "getcwd no_cwd PATH_MAX ?w = Inl 2"
    by (simp_all add: no_cwd_def host_def getcwd_def start_def PATH_MAX_def)
  obtain slots where 3: "noosh_split_line no_cwd ''pwd'' ?w = Returns slots ?w"
    using split_line_total[OF no_cwd_grants] by blast
  have "tokenize ''pwd'' = [''pwd'']"
    by (simp add: tokenize_maximal_runs) code_simp
  then have 4: "argv slots = ''pwd'' # []"
    using split_line_shape(1)[OF 3] by simp
  have 5: "strerror no_cwd 2 = ''No such file or directory''"
    by (simp add: no_cwd_def host_def)
  show ?thesis
    using pwd_prints_or_is_fatal [of host "start []" "''/home''" "[''pwd'']"]
      pwd_prints_or_is_fatal [of no_cwd "start []" _ "[''pwd'']" 2]
      pwd_prints_or_is_fatal [of no_cwd ?w _ _ 2 "start ''pwd\<newline>exit\<newline>''" "''pwd''" slots "[]"]
      1 2 3 4 5 read_pwd
    by (simp add: start_def)
qed

text \<open>
  Claim C5. The \<^verbatim>\<open>cd\<close> builtin invoked with no second token writes a usage diagnostic to
  the error stream, leaves the process working directory unchanged (no \<^verbatim>\<open>chdir\<close> is
  attempted), and returns "continue"; invoked with a path for which the directory change
  fails, it reports the underlying OS error and returns "continue".

  Without a second token the result does not depend on the system at all. A successful
  change sets the working directory and prints nothing.
\<close>

theorem cd_reports_and_continues:
  "noosh_execute sys [''cd''] w = Some (Returns 1 (w\<lparr>stderr := stderr w @ cd_usage\<rparr>)) \<and>
   cwd (w\<lparr>stderr := stderr w @ cd_usage\<rparr>) = cwd w \<and>
   (\<forall>sys'. noosh_execute sys' [''cd''] w = noosh_execute sys [''cd''] w) \<and>
   (chdir_sys sys (cwd w) path = Inl errno \<longrightarrow>
      noosh_execute sys (''cd'' # path # rest) w
        = Some (Returns 1 (w\<lparr>stderr := stderr w @ ''noosh: '' @ strerror sys errno @ ''\<newline>''\<rparr>))) \<and>
   (chdir_sys sys (cwd w) path = Inr dir \<longrightarrow>
      noosh_execute sys (''cd'' # path # rest) w = Some (Returns 1 (w\<lparr>cwd := dir\<rparr>)))"
  by (simp add: execute_cd noosh_cd_def arg_def cd_usage_def fprintf_stderr_def perror_def)

theorem cd_reports_and_continues_witness:
  "noosh_execute host [''cd''] (start [])
     = Some (Returns 1 ((start [])\<lparr>stderr := cd_usage\<rparr>)) \<and>
   noosh_execute host [''cd'', ''/nowhere''] (start [])
     = Some (Returns 1 ((start [])\<lparr>stderr := ''noosh: No such file or directory\<newline>''\<rparr>)) \<and>
   noosh_execute host [''cd'', ''/tmp''] (start [])
     = Some (Returns 1 ((start [])\<lparr>cwd := ''/tmp''\<rparr>))"
proof -
  have "chdir_sys host (cwd (start [])) ''/nowhere'' = Inl 2"
    and "chdir_sys host (cwd (start [])) ''/tmp'' = Inr ''/tmp''"
    and "strerror host 2 = ''No such file or directory''"
    and "stderr (start []) = []"
    by (simp_all add: host_def start_def)
  then show ?thesis
    using cd_reports_and_continues [of host "start []" "''/nowhere''" 2 "[]" "''/tmp''"]
      cd_reports_and_continues [of host "start []" "''/tmp''" 2 "[]" "''/tmp''"]
    by simp
qed

section \<open>Launching external programs\<close>

text \<open>
  Claim C2. For every non-empty token sequence whose first token is not one of the
  registered builtin names, \<^verbatim>\<open>noosh_execute\<close> invokes the process launcher with exactly
  that token sequence as the argument vector, and the resulting outcome is "continue" in
  every case, regardless of the child's exit status, of exec failure, or of fork failure.

  The dispatcher's result is the launcher's, on the same vector. Any result is status 1.
  A failing \<^verbatim>\<open>fork\<close> is reported and no child is recorded; otherwise the vector handed to
  \<^verbatim>\<open>execvp\<close> is the token sequence. A failing \<^verbatim>\<open>execvp\<close> is reported by the child, and
  the launcher returns. When the program runs, the launcher waits through stop
  notifications and returns 1 as soon as the child has exited or was killed by a signal,
  whatever its status; until then it is blocked in \<^verbatim>\<open>waitpid\<close>.
\<close>

theorem external_command_is_launched:
  assumes "args \<noteq> []" and "args ! 0 \<notin> set builtin_str"
  shows "noosh_execute sys args w = noosh_launch sys args w \<and>
    (\<forall>r. noosh_execute sys args w = Some r \<longrightarrow> (\<exists>w'. r = Returns 1 w')) \<and>
    (fork_sys sys = Some errno \<longrightarrow>
       noosh_execute sys args w
         = Some (Returns 1 (w\<lparr>stderr := stderr w @ ''noosh: '' @ strerror sys errno @ ''\<newline>''\<rparr>))) \<and>
    (fork_sys sys = None \<and> execvp_sys sys args = Some errno \<longrightarrow>
       noosh_execute sys args w
         = Some (Returns 1 (w\<lparr>children := children w @ [args],
               stderr := stderr w @ ''noosh: '' @ strerror sys errno @ ''\<newline>''\<rparr>))) \<and>
    (fork_sys sys = None \<and> execvp_sys sys args = None \<and>
     waitpid_sys sys args n = Some status \<and> (WIFEXITED status \<or> WIFSIGNALED status) \<and>
     (\<forall>k<n. \<exists>sig. waitpid_sys sys args k = Some (WStopped sig)) \<longrightarrow>
       (\<exists>w'. noosh_execute sys args w = Some (Returns 1 w') \<and>
             children w' = children w @ [args]))"
proof -
  have e: "noosh_execute sys args w = noosh_launch sys args w"
    using assms by (rule execute_other)
  show ?thesis
    unfolding e
    using launch_continues[of sys args w] launch_fork_fails[of sys errno args w]
      launch_exec_fails[of sys args errno w] launch_program_ends[of sys args n status w]
    by (auto simp: perror_def fprintf_stderr_def)
qed

theorem external_command_is_launched_witness:
  "noosh_execute host [''ls'', ''-l''] (start [])
     = Some (Returns 1 ((start [])\<lparr>stdout := ''main.c\<newline>'', children := [[''ls'', ''-l'']]\<rparr>)) \<and>
   noosh_execute host [''nonexistent_prog_xyz''] (start [])
     = Some (Returns 1 ((start [])\<lparr>children := [[''nonexistent_prog_xyz'']],
               stderr := ''noosh: No such file or directory\<newline>''\<rparr>)) \<and>
   noosh_execute no_fork [''ls'', ''-l''] (start [])
     = Some (Returns 1 ((start [])\<lparr>stderr := ''noosh: Resource temporarily unavailable\<newline>''\<rparr>))"
proof -
  have b: "[''ls'', ''-l''] \<noteq> []" "[''ls'', ''-l''] ! 0 \<notin> set builtin_str"
    "[''nonexistent_prog_xyz''] \<noteq> []" "[''nonexistent_prog_xyz''] ! 0 \<notin> set builtin_str"
    by (simp_all add: builtin_str_def)
  have h: "fork_sys host = None" "execvp_sys host [''ls'', ''-l''] = None"
    "execvp_sys host [''nonexistent_prog_xyz''] = Some 2"
    "waitpid_sys host [''ls'', ''-l''] 2 = Some (WExited 0)" "WIFEXITED (WExited 0)"
    "\<forall>k<2. \<exists>sig. waitpid_sys host [''ls'', ''-l''] k = Some (WStopped sig)"
    "strerror host 2 = ''No such file or directory''"
    "fork_sys no_fork = Some 11" "strerror no_fork 11 = ''Resource temporarily unavailable''"
    by (simp_all add: host_def no_fork_def WIFEXITED_def)
  obtain w' where 1: "noosh_execute host [''ls'', ''-l''] (start []) = Some (Returns 1 w')"
    using external_command_is_launched [OF b(1,2), of host "start []" _ 2 "WExited 0"] h
    by blast
  have "noosh_launch host [''ls'', ''-l''] (start []) = Some (Returns 1 w')"
    using external_command_is_launched [OF b(1,2), of host "start []"] 1 by simp
  then have 2: "w' = (start [])\<lparr>stdout := ''main.c\<newline>'', children := [[''ls'', ''-l'']]\<rparr>"
    by (auto simp: noosh_launch_def launch_child_def host_def start_def split: option.splits)
  have 3: "noosh_execute host [''nonexistent_prog_xyz''] (start [])
     = Some (Returns 1 ((start [])\<lparr>children := children (start []) @ [[''nonexistent_prog_xyz'']],
               stderr := stderr (start []) @ ''noosh: '' @ strerror host 2 @ ''\<newline>''\<rparr>))"
    using external_command_is_launched [OF b(3,4), of host "start []" 2] h by blast
  have 4: "noosh_execute no_fork [''ls'', ''-l''] (start [])
     = Some (Returns 1 ((start [])\<lparr>stderr := stderr (start []) @ ''noosh: ''
                                    @ strerror no_fork 11 @ ''\<newline>''\<rparr>))"
    using external_command_is_launched [OF b(1,2), of no_fork "start []" 11] h by blast
  show ?thesis
    unfolding 1 2 3 4 h by (simp add: start_def)
qed

section \<open>End of input\<close>

text \<open>
  Claim C1 says that on an input stream that is at end-of-stream the loop terminates
  immediately and the process exits with code 0, having printed one prompt. The code does
  not: \<^verbatim>\<open>noosh_read_line\<close> turns \<^verbatim>\<open>EOF\<close> into an empty line, the empty line is a no-op
  with status 1, and the next pass finds the input at its end again. With its two
  allocations granted, a pass at end of input prints the prompt and yields status 1, and
  neither \<^verbatim>\<open>noosh_loop\<close> nor \<^verbatim>\<open>main\<close> ever returns.
\<close>

theorem end_of_input_never_stops_the_loop:
  assumes "malloc_ok sys NOOSH_RL_BUFSIZE" and "malloc_ok sys (NOOSH_TOK_BUFSIZE * sizeof_ptr sys)"
    and "stdin w = []"
  shows "loop_body sys w = Some (Returns 1 (w\<lparr>stdout := stdout w @ ''> ''\<rparr>)) \<and>
         noosh_loop sys w = None \<and> main sys w = None"
proof -
  have "noosh_loop sys w = None"
    using loop_never_ends_at_eof[of sys w] assms by (cases "noosh_loop sys w") auto
  then show ?thesis
    using eof_pass[OF assms] by (simp add: main_def printf_def)
qed

theorem end_of_input_never_stops_the_loop_witness:
  "loop_body host (start []) = Some (Returns 1 ((start [])\<lparr>stdout := ''> ''\<rparr>)) \<and>
   main host (start []) = None"
proof -
  have "malloc_ok host NOOSH_RL_BUFSIZE" "malloc_ok host (NOOSH_TOK_BUFSIZE * sizeof_ptr host)"
    "stdin (start []) = []" "stdout (start []) = []"
    by (simp_all add: host_def start_def)
  then show ?thesis
    using end_of_input_never_stops_the_loop [of host "start []"] by simp
qed

end
